theory Spec2Isabelle
  imports Complex_Main "HOL-Library.Word"
begin

unbundle bit_operations_syntax

section \<open>Bytes and little-endian words\<close>

text \<open>
  An MRC file is a sequence of bytes.  The module \<^verbatim>\<open>ncempy/io/mrc.py\<close> reads and writes
  it through NumPy (\<^verbatim>\<open>np.fromfile\<close>, \<^verbatim>\<open>fid.write\<close>) on a little-endian machine:
  an \<^verbatim>\<open>int32\<close> or \<^verbatim>\<open>float32\<close> item is four bytes, least significant byte first.
\<close>

type_synonym byte = "8 word"

definition le32 :: "32 word \<Rightarrow> byte list" where
  "le32 w = [ucast w, ucast (drop_bit 8 w), ucast (drop_bit 16 w), ucast (drop_bit 24 w)]"

fun of_le :: "byte list \<Rightarrow> 'a::len word" where
  "of_le [] = 0"
| "of_le (b # bs) = ucast b OR push_bit 8 (of_le bs)"

text \<open>Cutting a buffer into items of \<open>k\<close> bytes; trailing bytes that do not fill an item
  are dropped, as \<^verbatim>\<open>np.fromfile\<close> does.\<close>

fun chunks :: "nat \<Rightarrow> nat \<Rightarrow> byte list \<Rightarrow> byte list list" where
  "chunks k 0 bs = []"
| "chunks k (Suc n) bs = take k bs # chunks k n (drop k bs)"

definition int32s :: "32 word list \<Rightarrow> byte list" where
  "int32s ws = concat (map le32 ws)"

section \<open>Floating-point values\<close>

text \<open>
  A floating-point number is modelled by the value it denotes: a finite real, an
  infinity or a NaN.  The two zeros are one value (NumPy's \<^verbatim>\<open>any()\<close>, \<^verbatim>\<open>==\<close> and \<^verbatim>\<open><\<close> do
  not tell them apart) and so are all NaNs: what is said below about a \<^verbatim>\<open>float32\<close> in
  a file is said about its value, \<open>f32_val\<close> of its four bytes, and where bytes are
  written for a value they are those of the positive zero and of the default NaN.
  \<^verbatim>\<open>float32\<close> is IEEE binary32 and a Python float or a \<^verbatim>\<open>float64\<close> is IEEE binary64,
  both with round-to-nearest-even: \<open>f32_val\<close> reads 32 bits, \<open>f32_of_real\<close> rounds a
  real to the bits of the nearest binary32, and \<open>f64_round\<close> rounds a real to the
  nearest binary64.  The arithmetic operations below are exact; the rounding of a
  result is applied where the program computes it.
\<close>

datatype npfloat = Fin real | PInf | NInf | NaN

definition f32_val :: "32 word \<Rightarrow> npfloat" where
  "f32_val w =
     (let s = bit w 31;
          ex = unat (drop_bit 23 w AND 0xFF);
          man = unat (w AND 0x7FFFFF);
          sg = (if s then - 1 else 1 :: real)
      in if ex = 255 then (if man = 0 then (if s then NInf else PInf) else NaN)
         else if ex = 0 then Fin (sg * real man * 2 powi (- 149))
         else Fin (sg * real (2 ^ 23 + man) * 2 powi (int ex - 150)))"

text \<open>Round half to even, on a non-negative real.\<close>

definition rhe :: "real \<Rightarrow> int" where
  "rhe x =
     (let f = \<lfloor>x\<rfloor>; d = x - of_int f
      in if d < 1 / 2 then f else if 1 / 2 < d then f + 1 else if even f then f else f + 1)"

text \<open>The binary exponent of a positive real, clamped to the binary32 range
  \<open>-126 \<dots> 127\<close>: \<open>expo 254 x\<close> is the largest \<open>e \<le> 127\<close> with \<open>2 ^ e \<le> x\<close>, or
  \<open>-126\<close> for a subnormal.\<close>

fun expo :: "nat \<Rightarrow> real \<Rightarrow> int" where
  "expo 0 x = - 126"
| "expo (Suc k) x = (if 2 powi (int k - 126) \<le> x then int k - 126 else expo k x)"

definition f32_pack :: "int \<Rightarrow> real \<Rightarrow> int" where
  "f32_pack e a = min 0x7F800000 ((e + 126) * 2 ^ 23 + rhe (a / 2 powi (e - 23)))"

definition f32_of_real :: "real \<Rightarrow> 32 word" where
  "f32_of_real x =
     word_of_int (if x < 0 then f32_pack (expo 254 (- x)) (- x) + 0x80000000
                  else f32_pack (expo 254 x) x)"

fun f32_bits :: "npfloat \<Rightarrow> 32 word" where
  "f32_bits (Fin x) = f32_of_real x"
| "f32_bits PInf = 0x7F800000"
| "f32_bits NInf = 0xFF800000"
| "f32_bits NaN = 0x7FC00000"

text \<open>\<^verbatim>\<open>np.float32(x)\<close> as a value: the nearest binary32.\<close>

definition np_float32 :: "npfloat \<Rightarrow> npfloat" where
  "np_float32 v = f32_val (f32_bits v)"

text \<open>
  Binary64 has 53 significant bits and the exponents \<open>-1022 \<dots> 1023\<close>.  \<open>expo64\<close> is
  \<open>expo\<close> for this range, \<open>f64_mag a\<close> is the multiple of the unit in the last place
  nearest to \<open>a \<ge> 0\<close>, and a magnitude of \<open>2\<^sup>1\<^sup>0\<^sup>2\<^sup>4\<close> or more is an infinity.
\<close>

fun expo64 :: "nat \<Rightarrow> real \<Rightarrow> int" where
  "expo64 0 x = - 1022"
| "expo64 (Suc k) x = (if 2 powi (int k - 1022) \<le> x then int k - 1022 else expo64 k x)"

definition f64_mag :: "real \<Rightarrow> real" where
  "f64_mag a = of_int (rhe (a / 2 powi (expo64 2046 a - 52))) * 2 powi (expo64 2046 a - 52)"

definition f64_round :: "real \<Rightarrow> npfloat" where
  "f64_round x =
     (if 2 powi 1024 \<le> f64_mag \<bar>x\<bar> then (if x < 0 then NInf else PInf)
      else Fin (if x < 0 then - f64_mag \<bar>x\<bar> else f64_mag \<bar>x\<bar>))"

text \<open>A result as a Python float or a \<^verbatim>\<open>float64\<close>: the nearest binary64.\<close>

fun np_float64 :: "npfloat \<Rightarrow> npfloat" where
  "np_float64 (Fin x) = f64_round x"
| "np_float64 v = v"

fun fsign :: "npfloat \<Rightarrow> int" where
  "fsign (Fin x) = (if x < 0 then - 1 else if x = 0 then 0 else 1)"
| "fsign PInf = 1"
| "fsign NInf = - 1"
| "fsign NaN = 0"

definition signed_inf :: "int \<Rightarrow> npfloat" where
  "signed_inf s = (if s < 0 then NInf else PInf)"

text \<open>IEEE multiplication, division and addition on the values, before rounding.\<close>

fun fmul :: "npfloat \<Rightarrow> npfloat \<Rightarrow> npfloat" where
  "fmul NaN b = NaN"
| "fmul a NaN = NaN"
| "fmul (Fin x) (Fin y) = Fin (x * y)"
| "fmul a b = (if fsign a * fsign b = 0 then NaN else signed_inf (fsign a * fsign b))"

fun fdiv :: "npfloat \<Rightarrow> npfloat \<Rightarrow> npfloat" where
  "fdiv NaN b = NaN"
| "fdiv a NaN = NaN"
| "fdiv (Fin x) (Fin y) =
     (if y = 0 then (if x = 0 then NaN else signed_inf (fsign (Fin x))) else Fin (x / y))"
| "fdiv (Fin x) b = Fin 0"
| "fdiv a (Fin y) = signed_inf (fsign a * (if y < 0 then - 1 else 1))"
| "fdiv a b = NaN"

fun fadd :: "npfloat \<Rightarrow> npfloat \<Rightarrow> npfloat" where
  "fadd NaN b = NaN"
| "fadd a NaN = NaN"
| "fadd (Fin x) (Fin y) = Fin (x + y)"
| "fadd (Fin x) b = b"
| "fadd a (Fin y) = a"
| "fadd a b = (if a = b then a else NaN)"

fun fless :: "npfloat \<Rightarrow> npfloat \<Rightarrow> bool" where
  "fless (Fin x) (Fin y) = (x < y)"
| "fless (Fin x) b = (b = PInf)"
| "fless NInf b = (b \<noteq> NInf \<and> b \<noteq> NaN)"
| "fless a b = False"

text \<open>The element-wise step of \<^verbatim>\<open>np.min\<close> and \<^verbatim>\<open>np.max\<close>: a NaN propagates.\<close>

definition fmin :: "npfloat \<Rightarrow> npfloat \<Rightarrow> npfloat" where
  "fmin a b = (if a = NaN \<or> b = NaN then NaN else if fless b a then b else a)"

definition fmax :: "npfloat \<Rightarrow> npfloat \<Rightarrow> npfloat" where
  "fmax a b = (if a = NaN \<or> b = NaN then NaN else if fless a b then b else a)"

section \<open>Errors\<close>

text \<open>
  Every way in which the module's functions stop without their normal result.
  \<^item> \<open>TooManyDimensions\<close>, \<open>NotCContiguous\<close>, \<open>UnsupportedDtype\<close>: the three places
    where \<^verbatim>\<open>mrcWriter\<close> prints a message ("Too many dimensions", "Error: Array must be
    C-style ordering ...", "Data type ... is unsupported ...") and returns 0.
  \<^item> \<open>UnboundLocalError\<close>: \<^verbatim>\<open>_getMRCType\<close> prints "Unsupported data type" and then
    executes \<^verbatim>\<open>return Type\<close> with \<^verbatim>\<open>Type\<close> never assigned.
  \<^item> \<open>IndexError\<close>, \<open>ValueError\<close>, \<open>OSError\<close>: the Python exceptions raised by an index out
    of range, by NumPy on a zero-size reduction, a failed broadcast or reshape or a
    non-contiguous buffer, and by a seek to a negative offset.
  \<^item> \<open>BadFileObject\<close>: \<^verbatim>\<open>np.fromfile\<close> called on \<^verbatim>\<open>None\<close>, when \<^verbatim>\<open>open\<close> had failed.
\<close>

datatype error =
    TooManyDimensions
  | NotCContiguous
  | UnsupportedDtype
  | UnboundLocalError
  | IndexError
  | ValueError
  | OSError
  | BadFileObject

text \<open>Indexing a Python sequence with a non-negative literal.\<close>

definition py_index :: "'a list \<Rightarrow> nat \<Rightarrow> error + 'a" where
  "py_index xs i = (if i < length xs then Inr (xs ! i) else Inl IndexError)"

text \<open>Indexing a NumPy array with an integer: a negative index counts from the end.\<close>

definition np_index :: "'a list \<Rightarrow> int \<Rightarrow> error + 'a" where
  "np_index xs i =
     (if 0 \<le> i \<and> i < int (length xs) then Inr (xs ! nat i)
      else if i < 0 \<and> - int (length xs) \<le> i then Inr (xs ! nat (int (length xs) + i))
      else Inl IndexError)"

section \<open>File objects and the file system\<close>

text \<open>
  An open file is its content and the current position.  Writing overwrites from the
  position on and extends the file where needed; a gap left by a seek beyond the end
  reads as zeros.  The file system maps a name to the content of the file, and counts
  the handles that have been opened and not closed.
\<close>

record fobj =
  content :: "byte list"
  pos :: nat

definition fwrite :: "byte list \<Rightarrow> fobj \<Rightarrow> fobj" where
  "fwrite bs f =
     \<lparr>content = take (pos f) (content f) @ replicate (pos f - length (content f)) 0 @ bs
                  @ drop (pos f + length bs) (content f),
      pos = pos f + length bs\<rparr>"

definition fseek :: "nat \<Rightarrow> fobj \<Rightarrow> fobj" where
  "fseek n f = f\<lparr>pos := n\<rparr>"

text \<open>\<^verbatim>\<open>np.fromfile(fid, dtype, count)\<close> for items of \<open>k\<close> bytes: it reads \<open>count\<close>
  items, or as many whole items as the file still holds when that is fewer or when
  \<open>count\<close> is negative, and leaves the position after them.\<close>

definition np_fromfile :: "fobj \<Rightarrow> nat \<Rightarrow> int \<Rightarrow> byte list list \<times> fobj" where
  "np_fromfile f k count =
     (let avail = (length (content f) - pos f) div k;
          n = (if count < 0 then avail else min (nat count) avail)
      in (chunks k n (drop (pos f) (content f)), f\<lparr>pos := pos f + n * k\<rparr>))"

record world =
  files :: "string \<Rightarrow> byte list option"
  open_handles :: nat

section \<open>NumPy arrays\<close>

text \<open>
  An array is its element type, its shape, its items in C order (last index fastest) as
  bytes, and the flag \<^verbatim>\<open>flags['C_CONTIGUOUS']\<close>, which says whether the memory of the
  array holds the items in that order.  \<open>Other k\<close> is any element type of \<open>k\<close> bytes
  that the module does not support.
\<close>

datatype dtype = Float32 | UInt16 | Int16 | Int8 | Other nat

fun itemsize :: "dtype \<Rightarrow> nat" where
  "itemsize Float32 = 4"
| "itemsize UInt16 = 2"
| "itemsize Int16 = 2"
| "itemsize Int8 = 1"
| "itemsize (Other k) = k"

record ndarray =
  dtype :: dtype
  shape :: "nat list"
  buf :: "byte list"
  c_contiguous :: bool

definition size_of :: "ndarray \<Rightarrow> nat" where
  "size_of a = prod_list (shape a)"

text \<open>The buffer of an array holds its items, and NumPy cannot allocate \<open>2 ^ 63\<close> bytes
  or more.\<close>

definition wf_ndarray :: "ndarray \<Rightarrow> bool" where
  "wf_ndarray a =
     (0 < itemsize (dtype a) \<and> length (buf a) = size_of a * itemsize (dtype a)
      \<and> length (buf a) < 2 ^ 63)"

text \<open>The number an item denotes.  \<^verbatim>\<open>mrcWriter\<close> returns before it looks at the items
  of an array of another type, so these have no reading here.\<close>

fun item_val :: "dtype \<Rightarrow> byte list \<Rightarrow> npfloat" where
  "item_val Float32 bs = f32_val (of_le bs)"
| "item_val UInt16 bs = Fin (of_int (uint (of_le bs :: 16 word)))"
| "item_val Int16 bs = Fin (of_int (sint (of_le bs :: 16 word)))"
| "item_val Int8 bs = Fin (of_int (sint (of_le bs :: 8 word)))"
| "item_val (Other k) bs = NaN"

definition items :: "ndarray \<Rightarrow> npfloat list" where
  "items a = map (item_val (dtype a)) (chunks (itemsize (dtype a)) (size_of a) (buf a))"

text \<open>\<^verbatim>\<open>np.min\<close> and \<^verbatim>\<open>np.max\<close> raise ValueError on an array of size zero.\<close>

definition amin :: "npfloat list \<Rightarrow> npfloat" where
  "amin xs = foldl fmin (hd xs) (tl xs)"

definition amax :: "npfloat list \<Rightarrow> npfloat" where
  "amax xs = foldl fmax (hd xs) (tl xs)"

definition np_min :: "ndarray \<Rightarrow> error + npfloat" where
  "np_min a = (if items a = [] then Inl ValueError else Inr (amin (items a)))"

definition np_max :: "ndarray \<Rightarrow> error + npfloat" where
  "np_max a = (if items a = [] then Inl ValueError else Inr (amax (items a)))"

text \<open>
  \<^verbatim>\<open>np.mean\<close> adds the items and divides the sum by their number.  For an array of an
  integer type the items are added as \<^verbatim>\<open>float64\<close> and the mean is a \<^verbatim>\<open>float64\<close>; for a
  \<^verbatim>\<open>float32\<close> array they are added as \<^verbatim>\<open>float32\<close>, the sum is divided by the count
  in \<^verbatim>\<open>float64\<close> and the quotient is made a \<^verbatim>\<open>float32\<close> again.  Every addition rounds.
  NumPy does not add from left to right, as \<open>np_sum\<close> does, but in groups (pairwise
  summation): the two sums are the same whenever no addition has to round, which is
  the case for the arrays of \<open>exact_sum\<close> below, and they can differ in the last bits
  otherwise.
\<close>

definition add_f32 :: "npfloat \<Rightarrow> npfloat \<Rightarrow> npfloat" where
  "add_f32 a b = np_float32 (fadd a b)"

definition add_f64 :: "npfloat \<Rightarrow> npfloat \<Rightarrow> npfloat" where
  "add_f64 a b = np_float64 (fadd a b)"

definition np_sum :: "ndarray \<Rightarrow> npfloat" where
  "np_sum a =
     (if dtype a = Float32 then foldl add_f32 (Fin 0) (items a)
      else foldl add_f64 (Fin 0) (items a))"

definition np_mean :: "ndarray \<Rightarrow> npfloat" where
  "np_mean a =
     (if dtype a = Float32
      then np_float32 (np_float64 (fdiv (np_sum a) (np_float64 (Fin (real (size_of a))))))
      else np_float64 (fdiv (np_sum a) (np_float64 (Fin (real (size_of a))))))"





text \<open>\<^verbatim>\<open>np.ascontiguousarray\<close> returns an array with the same items laid out in C order
  (the array itself when it already is).  \<^verbatim>\<open>fid.write(a)\<close> takes the memory of the array
  through the buffer protocol, which NumPy refuses for an array that is not
  C-contiguous.\<close>

definition np_ascontiguousarray :: "ndarray \<Rightarrow> ndarray" where
  "np_ascontiguousarray a = a\<lparr>c_contiguous := True\<rparr>"

definition tobytes :: "ndarray \<Rightarrow> error + byte list" where
  "tobytes a = (if c_contiguous a then Inr (buf a) else Inl ValueError)"

text \<open>\<^verbatim>\<open>np.int32(n)\<close> of a Python integer keeps the low 32 bits (NumPy 1.x).\<close>

definition np_int32 :: "nat \<Rightarrow> 32 word" where
  "np_int32 n = word_of_int (int n)"

definition float32_bytes :: "npfloat \<Rightarrow> byte list" where
  "float32_bytes v = le32 (f32_bits v)"

text \<open>\<^verbatim>\<open>pixelSize[i]*stack.shape[i]\<close>, a Python float times a Python integer: the integer
  is made a float and the product is rounded to binary64.\<close>

definition py_mul :: "npfloat \<Rightarrow> nat \<Rightarrow> npfloat" where
  "py_mul p n = np_float64 (fmul p (np_float64 (Fin (real n))))"

section \<open>The writer: \<^verbatim>\<open>mrcWriter\<close>\<close>

text \<open>The MRC type code of the element type (lines 357 to 367).\<close>

fun mrc_code :: "dtype \<Rightarrow> 32 word option" where
  "mrc_code Float32 = Some 2"
| "mrc_code UInt16 = Some 6"
| "mrc_code Int16 = Some 1"
| "mrc_code Int8 = Some 0"
| "mrc_code (Other k) = None"

text \<open>What has been written reaches the file system whichever way the function ends.\<close>

definition commit :: "world \<Rightarrow> string \<Rightarrow> fobj \<Rightarrow> world" where
  "commit w name f = w\<lparr>files := (files w)(name \<mapsto> content f)\<rparr>"

definition close_file :: "world \<Rightarrow> world" where
  "close_file w = w\<lparr>open_handles := open_handles w - 1\<rparr>"

text \<open>A step that may raise: on an error the function stops with the file as it is.\<close>

definition attempt ::
  "error + 'a \<Rightarrow> fobj \<Rightarrow> ('a \<Rightarrow> (error + int) \<times> fobj) \<Rightarrow> (error + int) \<times> fobj" where
  "attempt m f k = (case m of Inl e \<Rightarrow> (Inl e, f) | Inr x \<Rightarrow> k x)"

text \<open>
  \<^verbatim>\<open>mrcWriter(filename, stack, pixelSize, forceWrite)\<close>, statement by statement.
  \<open>pixelSize\<close> is a sequence of Python floats.  The result is \<open>Inr 1\<close> for
  \<^verbatim>\<open>return 1\<close>; the three \<^verbatim>\<open>return 0\<close> and every exception are \<open>Inl\<close>.
  \<open>write_body\<close> is lines 343 to 408, from the zero header to the samples, on the open
  file.  Only line 411, before \<^verbatim>\<open>return 1\<close>, closes the file.  The statement
  \<^verbatim>\<open>np.int32(stack)\<close> of line 394 converts the array and drops the result: it changes
  neither the array nor the file, and it has no step here (it needs the memory for a
  second array, and memory is not modelled).
\<close>

definition write_body :: "ndarray \<Rightarrow> npfloat list \<Rightarrow> bool \<Rightarrow> fobj \<Rightarrow> (error + int) \<times> fobj" where
  "write_body stack pixelSize forceWrite fid0 =
     (let fid1 = fseek 0 (fwrite (int32s (replicate 256 0)) fid0) in
      attempt (py_index (shape stack) 2) fid1 (\<lambda>n2.
      attempt (py_index (shape stack) 1) fid1 (\<lambda>n1.
      attempt (py_index (shape stack) 0) fid1 (\<lambda>n0.
      attempt (case mrc_code (dtype stack) of None \<Rightarrow> Inl UnsupportedDtype | Some c \<Rightarrow> Inr c)
        fid1 (\<lambda>code.
      let header1 = [np_int32 n2, np_int32 n1, np_int32 n0, code, 0, 0, 0,
                     np_int32 n2, np_int32 n1, np_int32 n0];
          fid2 = fwrite (int32s header1) fid1 in
      attempt (py_index pixelSize 2) fid2 (\<lambda>p2.
      let fid3 = fwrite (float32_bytes (py_mul p2 n2)) fid2 in
      attempt (py_index pixelSize 1) fid3 (\<lambda>p1.
      let fid4 = fwrite (float32_bytes (py_mul p1 n1)) fid3 in
      attempt (py_index pixelSize 0) fid4 (\<lambda>p0.
      let fid5 = fwrite (float32_bytes (py_mul p0 n0)) fid4;
          fid6 = fwrite (concat (map float32_bytes [Fin 90, Fin 90, Fin 90])) fid5;
          fid7 = fwrite (int32s [1, 2, 3]) fid6 in
      attempt (np_min stack) fid7 (\<lambda>mn.
      let fid8 = fwrite (float32_bytes mn) fid7 in
      attempt (np_max stack) fid8 (\<lambda>mx.
      let fid9 = fwrite (float32_bytes mx) fid8;
          fid10 = fwrite (float32_bytes (np_mean stack)) fid9;
          fid11 = fwrite [68, 65, 0, 0] (fseek 212 fid10);
          fid12 = fseek 1024 fid11 in
      attempt (if forceWrite then tobytes (np_ascontiguousarray stack) else tobytes stack)
        fid12 (\<lambda>bs.
      (Inr 1, fwrite bs fid12))))))))))))"

definition mrcWriter ::
  "world \<Rightarrow> string \<Rightarrow> ndarray \<Rightarrow> npfloat list \<Rightarrow> bool \<Rightarrow> (error + int) \<times> world" where
  "mrcWriter w filename stack pixelSize forceWrite =
     (let w1 = w\<lparr>files := (files w)(filename \<mapsto> []), open_handles := Suc (open_handles w)\<rparr>;
          fid = \<lparr>content = [], pos = 0\<rparr>
      in if 3 < length (shape stack) then (Inl TooManyDimensions, w1)
         else if \<not> c_contiguous stack then (Inl NotCContiguous, w1)
         else
           (case write_body stack pixelSize forceWrite fid of
              (Inl e, fid') \<Rightarrow> (Inl e, commit w1 filename fid')
            | (Inr r, fid') \<Rightarrow> (Inr r, close_file (commit w1 filename fid'))))"

section \<open>The reader: class \<^verbatim>\<open>fileMRC\<close> and \<^verbatim>\<open>mrcReader\<close>\<close>

text \<open>
  An object of the class holds the file name and the handle \<^verbatim>\<open>self.fid\<close>, which stays
  \<^verbatim>\<open>None\<close> when \<^verbatim>\<open>open\<close> fails (\<^verbatim>\<open>__init__\<close> catches the IOError and prints it).
  \<^verbatim>\<open>parseHeader\<close> sets the other attributes, collected in the record \<open>header\<close>.  The
  \<^verbatim>\<open>print\<close> statements under \<^verbatim>\<open>self.v\<close> only write to the console and are left out.
\<close>

record fileMRC =
  filename :: string
  fid :: "fobj option"

record header =
  dataSize :: "int list"
  mrcType :: int
  dataType :: dtype
  gridSize :: "int list"
  volumeSize :: "npfloat list"
  voxelSize :: "npfloat list"
  cellAngles :: "npfloat list"
  axisOrientations :: "int list"
  Shape :: "int list"
  minMaxMean :: "int list"
  extra :: "int list"
  dataOffset :: int
  FEIinfo :: "npfloat list option"

text \<open>The dictionary that \<^verbatim>\<open>getDataset\<close> returns, by key.\<close>

record dataOut =
  out_voxelSize :: "npfloat list"
  out_axisOrientations :: "int list"
  out_cellAngles :: "npfloat list"
  out_FEIinfo :: "npfloat list option"
  out_data :: ndarray

definition fileMRC_init :: "world \<Rightarrow> string \<Rightarrow> world \<times> fileMRC" where
  "fileMRC_init w name =
     (case files w name of
        None \<Rightarrow> (w, \<lparr>filename = name, fid = None\<rparr>)
      | Some c \<Rightarrow> (w\<lparr>open_handles := Suc (open_handles w)\<rparr>,
                   \<lparr>filename = name, fid = Some \<lparr>content = c, pos = 0\<rparr>\<rparr>))"

text \<open>\<^verbatim>\<open>self.fid.close()\<close>.  On \<^verbatim>\<open>None\<close> it raises AttributeError, which Python only
  reports when it happens inside \<^verbatim>\<open>__del__\<close>.\<close>

definition fid_close :: "world \<Rightarrow> fobj option \<Rightarrow> world" where
  "fid_close w h = (case h of None \<Rightarrow> w | Some f \<Rightarrow> close_file w)"

text \<open>\<^verbatim>\<open>__del__\<close>: the call of \<^verbatim>\<open>close\<close> is under \<^verbatim>\<open>if(not self.fid)\<close>; a file object is
  true, \<^verbatim>\<open>None\<close> is false.\<close>

definition fileMRC_del :: "world \<Rightarrow> fileMRC \<Rightarrow> world" where
  "fileMRC_del w self = (if fid self = None then fid_close w (fid self) else w)"

text \<open>\<^verbatim>\<open>_getMRCType\<close>: the \<^verbatim>\<open>else\<close> branch prints and falls through to
  \<^verbatim>\<open>return Type\<close>.\<close>

definition getMRCType :: "int \<Rightarrow> error + dtype" where
  "getMRCType t =
     (if t = 0 then Inr Int8
      else if t = 1 then Inr Int16
      else if t = 2 then Inr Float32
      else if t = 6 then Inr UInt16
      else Inl UnboundLocalError)"

definition bind_e :: "error + 'a \<Rightarrow> ('a \<Rightarrow> error + 'b) \<Rightarrow> error + 'b" where
  "bind_e m k = (case m of Inl e \<Rightarrow> Inl e | Inr x \<Rightarrow> k x)"

text \<open>A list comprehension whose items may raise: the first error ends it.\<close>

fun collect :: "(error + 'a) list \<Rightarrow> error + 'a list" where
  "collect [] = Inr []"
| "collect (m # ms) = bind_e m (\<lambda>x. bind_e (collect ms) (\<lambda>xs. Inr (x # xs)))"

definition read_int32 :: "fobj \<Rightarrow> int \<Rightarrow> int list \<times> fobj" where
  "read_int32 f n =
     (case np_fromfile f 4 n of (its, f') \<Rightarrow> (map (\<lambda>bs. sint (of_le bs :: 32 word)) its, f'))"

definition read_float32 :: "fobj \<Rightarrow> int \<Rightarrow> npfloat list \<times> fobj" where
  "read_float32 f n =
     (case np_fromfile f 4 n of (its, f') \<Rightarrow> (map (\<lambda>bs. f32_val (of_le bs :: 32 word)) its, f'))"

text \<open>\<^verbatim>\<open>a.any() == 0\<close>: no item of the array is non-zero.\<close>

definition none_nonzero_f :: "npfloat list \<Rightarrow> bool" where
  "none_nonzero_f xs = list_all (\<lambda>v. v = Fin 0) xs"

definition none_nonzero_i :: "int list \<Rightarrow> bool" where
  "none_nonzero_i xs = list_all (\<lambda>v. v = 0) xs"

text \<open>\<^verbatim>\<open>volumeSize / np.float32(gridSize)\<close> on \<^verbatim>\<open>float32\<close> arrays: item by item, an array
  of one item is broadcast, other lengths that differ do not fit.\<close>

definition div32 :: "npfloat \<Rightarrow> int \<Rightarrow> npfloat" where
  "div32 x g = np_float32 (fdiv x (np_float32 (Fin (of_int g))))"

definition np_divide :: "npfloat list \<Rightarrow> int list \<Rightarrow> error + npfloat list" where
  "np_divide xs gs =
     (if length xs = length gs then Inr (map2 div32 xs gs)
      else if length xs = 1 then Inr (map (div32 (hd xs)) gs)
      else if length gs = 1 then Inr (map (\<lambda>x. div32 x (hd gs)) xs)
      else Inl ValueError)"

text \<open>\<^verbatim>\<open>a[i] = v\<close> for a literal \<open>i\<close>; \<open>single\<close> says that the array is \<^verbatim>\<open>float32\<close>, so
  that the value is rounded when stored.\<close>

definition store :: "bool \<Rightarrow> npfloat \<Rightarrow> npfloat" where
  "store single v = (if single then np_float32 v else v)"

definition np_setitem :: "bool \<Rightarrow> npfloat list \<Rightarrow> nat \<Rightarrow> npfloat \<Rightarrow> error + npfloat list" where
  "np_setitem single xs i v =
     (if i < length xs then Inr (xs[i := store single v]) else Inl IndexError)"

text \<open>Lines 141 to 171: the FEI extended header and the voxel size it sets.  The product
  \<^verbatim>\<open>FEIinfo['pixel_size']*1e10\<close> is a \<^verbatim>\<open>float64\<close>; it is exact, a binary32 times \<open>10\<^sup>1\<^sup>0\<close>
  having at most 48 significant bits.\<close>

definition read_FEI ::
  "fobj \<Rightarrow> bool \<Rightarrow> npfloat list \<Rightarrow> error + (npfloat list \<times> npfloat list \<times> fobj)" where
  "read_FEI f single vox =
     (case read_float32 f 15 of (FEIinfoValues, f') \<Rightarrow>
        bind_e (collect (map (py_index FEIinfoValues) [0 ..< 15])) (\<lambda>info.
        bind_e (py_index info 11) (\<lambda>pixel_size.
        bind_e (np_setitem single vox 0 (Fin 1)) (\<lambda>vox1.
        bind_e (np_setitem single vox1 1 (fmul pixel_size (Fin 10000000000))) (\<lambda>vox2.
        bind_e (np_setitem single vox2 2 (fmul pixel_size (Fin 10000000000))) (\<lambda>vox3.
        Inr (info, vox3, f')))))))"

text \<open>\<^verbatim>\<open>parseHeader\<close> on the open file.\<close>

definition parse :: "fobj \<Rightarrow> error + (header \<times> fobj)" where
  "parse f0 =
     (case read_int32 f0 10 of (head1, f1) \<Rightarrow>
      bind_e (np_index head1 3) (\<lambda>mrcType'.
      bind_e (getMRCType mrcType') (\<lambda>dataType'.
      case read_float32 f1 6 of (head2, f2) \<Rightarrow>
      let dataSize' = take 3 head1;
          gridSize' = take 3 (drop 7 head1);
          volumeSize' = take 3 head2;
          single = \<not> (none_nonzero_f volumeSize' \<or> none_nonzero_i gridSize') in
      bind_e (if single then np_divide volumeSize' gridSize' else Inr [Fin 1, Fin 1, Fin 1])
        (\<lambda>voxelSize'.
      case read_int32 f2 3 of (axisOrientations', f3) \<Rightarrow>
      bind_e (collect (map (\<lambda>x. np_index dataSize' (x - 1)) axisOrientations')) (\<lambda>Shape'.
      case read_int32 f3 3 of (minMaxMean', f4) \<Rightarrow>
      case read_int32 f4 34 of (extra', f5) \<Rightarrow>
      let f6 = fseek 1024 f5 in
      bind_e (np_index extra' 1) (\<lambda>extra1.
      bind_e (if extra1 \<noteq> 0
              then bind_e (read_FEI f6 single (rev voxelSize'))
                     (\<lambda>(info, vox, f7). Inr (Some info, vox, f7))
              else Inr (None, rev voxelSize', f6)) (\<lambda>(fei, vox, f8).
      Inr (\<lparr>dataSize = rev dataSize', mrcType = mrcType', dataType = dataType',
            gridSize = rev gridSize', volumeSize = rev volumeSize', voxelSize = vox,
            cellAngles = rev (take 3 (drop 3 head2)),
            axisOrientations = rev axisOrientations', Shape = rev Shape',
            minMaxMean = minMaxMean', extra = extra', dataOffset = 1024 + extra1,
            FEIinfo = fei\<rparr>, f8))))))))"

definition parseHeader :: "fileMRC \<Rightarrow> error + (header \<times> fileMRC)" where
  "parseHeader self =
     (case fid self of
        None \<Rightarrow> Inl BadFileObject
      | Some f \<Rightarrow> bind_e (parse f) (\<lambda>(h, f'). Inr (h, self\<lparr>fid := Some f'\<rparr>)))"

text \<open>\<^verbatim>\<open>np.prod\<close> of an \<^verbatim>\<open>int32\<close> array is computed in 64-bit integers.\<close>

definition np_prod :: "int list \<Rightarrow> int" where
  "np_prod ds = sint (word_of_int (prod_list ds) :: 64 word)"

text \<open>\<^verbatim>\<open>reshape\<close> of an array of \<open>n\<close> items: one negative dimension is inferred from the
  others, otherwise the product of the dimensions has to be \<open>n\<close>.\<close>

definition np_reshape :: "nat \<Rightarrow> int list \<Rightarrow> error + nat list" where
  "np_reshape n dims =
     (let unknown = length (filter (\<lambda>d. d < 0) dims);
          known = nat (prod_list (filter (\<lambda>d. 0 \<le> d) dims))
      in if 1 < unknown then Inl ValueError
         else if unknown = 1 then
           (if known = 0 \<or> n mod known \<noteq> 0 then Inl ValueError
            else Inr (map (\<lambda>d. if d < 0 then n div known else nat d) dims))
         else if known = n then Inr (map nat dims)
         else Inl ValueError)"

text \<open>\<^verbatim>\<open>getDataset\<close>.  Memory is not modelled: the path on which NumPy cannot allocate
  the array that the header announces, where the handler of line 191 prints a message
  and the dictionary is returned without \<^verbatim>\<open>'data'\<close>, is absent, and \<^verbatim>\<open>np.fromfile\<close> reads
  what the file holds.\<close>

definition getDataset :: "fileMRC \<Rightarrow> header \<Rightarrow> error + dataOut" where
  "getDataset self h =
     (case fid self of
        None \<Rightarrow> Inl BadFileObject
      | Some f \<Rightarrow>
          if dataOffset h < 0 then Inl OSError
          else
            (case np_fromfile (fseek (nat (dataOffset h)) f) (itemsize (dataType h))
                    (np_prod (dataSize h)) of (data1, f') \<Rightarrow>
             bind_e (np_reshape (length data1) (Shape h)) (\<lambda>shp.
             Inr \<lparr>out_voxelSize = voxelSize h, out_axisOrientations = axisOrientations h,
                  out_cellAngles = cellAngles h, out_FEIinfo = FEIinfo h,
                  out_data = \<lparr>dtype = dataType h, shape = shp, buf = concat data1,
                              c_contiguous = True\<rparr>\<rparr>)))"

text \<open>\<^verbatim>\<open>mrcReader\<close>: open, parse, read, and \<^verbatim>\<open>del f1\<close>, which runs \<^verbatim>\<open>__del__\<close>.  When
  an exception leaves the function, the object is dropped with the frame and
  \<^verbatim>\<open>__del__\<close> runs as well.\<close>

definition mrcReader :: "world \<Rightarrow> string \<Rightarrow> (error + dataOut) \<times> world" where
  "mrcReader w fname =
     (case fileMRC_init w fname of (w1, f1) \<Rightarrow>
        (case parseHeader f1 of
           Inl e \<Rightarrow> (Inl e, fileMRC_del w1 f1)
         | Inr (h, f2) \<Rightarrow> (getDataset f2 h, fileMRC_del w1 f2)))"

section \<open>The layout of a file\<close>

text \<open>The 32-bit word at word index \<open>i\<close> of a file (byte offset \<open>4 * i\<close>), read as
  \<^verbatim>\<open>int32\<close> and as \<^verbatim>\<open>float32\<close>.\<close>

definition word_at :: "byte list \<Rightarrow> nat \<Rightarrow> 32 word" where
  "word_at c i = of_le (take 4 (drop (4 * i) c))"

definition int32_at :: "byte list \<Rightarrow> nat \<Rightarrow> int" where
  "int32_at c i = sint (word_at c i)"

definition float32_at :: "byte list \<Rightarrow> nat \<Rightarrow> npfloat" where
  "float32_at c i = f32_val (word_at c i)"

text \<open>
  The fields of the fixed header by their place in the file: dimensions (words 0 to 2),
  type code (word 3), grid size (words 7 to 9), cell volume and cell angles (words 10 to
  15), axis order (words 16 to 18), and the extension count, which is item 1 of the 34
  words \<^verbatim>\<open>extra\<close> that start at byte 88, that is word 23.
\<close>

definition file_dims :: "byte list \<Rightarrow> int list" where
  "file_dims c = [int32_at c 0, int32_at c 1, int32_at c 2]"

definition file_code :: "byte list \<Rightarrow> int" where
  "file_code c = int32_at c 3"

definition file_grid :: "byte list \<Rightarrow> int list" where
  "file_grid c = [int32_at c 7, int32_at c 8, int32_at c 9]"

definition file_cell :: "byte list \<Rightarrow> npfloat list" where
  "file_cell c = [float32_at c 10, float32_at c 11, float32_at c 12]"

definition file_angles :: "byte list \<Rightarrow> npfloat list" where
  "file_angles c = [float32_at c 13, float32_at c 14, float32_at c 15]"

definition file_axes :: "byte list \<Rightarrow> int list" where
  "file_axes c = [int32_at c 16, int32_at c 17, int32_at c 18]"

definition ext_count :: "byte list \<Rightarrow> int" where
  "ext_count c = int32_at c 23"

text \<open>The vendor field \<^verbatim>\<open>pixel_size\<close>: item 11 of the 15 floats at byte 1024.\<close>

definition file_pixel_size :: "byte list \<Rightarrow> npfloat" where
  "file_pixel_size c = float32_at c 267"


text \<open>
  The first 224 bytes that \<^verbatim>\<open>mrcWriter\<close> produces for a three-dimensional array, as 56
  words: the ten integers of \<^verbatim>\<open>header1\<close>, the cell lengths, the cell angles, the axis
  order, minimum, maximum and mean, and the zeros of the first header write with the
  four bytes 68, 65, 0, 0 of byte offset 212 as word 53.  The file is these words, zeros
  up to byte 1024, and the samples.
\<close>

definition header_words :: "ndarray \<Rightarrow> npfloat list \<Rightarrow> 32 word list" where
  "header_words stack pixelSize =
     (let n0 = shape stack ! 0; n1 = shape stack ! 1; n2 = shape stack ! 2
      in [np_int32 n2, np_int32 n1, np_int32 n0, the (mrc_code (dtype stack)), 0, 0, 0,
          np_int32 n2, np_int32 n1, np_int32 n0,
          f32_bits (py_mul (pixelSize ! 2) n2),
          f32_bits (py_mul (pixelSize ! 1) n1),
          f32_bits (py_mul (pixelSize ! 0) n0),
          f32_bits (Fin 90), f32_bits (Fin 90), f32_bits (Fin 90),
          1, 2, 3,
          f32_bits (amin (items stack)), f32_bits (amax (items stack)),
          f32_bits (np_mean stack)]
         @ replicate 31 0 @ [0x4144, 0, 0])"

definition mrc_file :: "ndarray \<Rightarrow> npfloat list \<Rightarrow> byte list" where
  "mrc_file stack pixelSize =
     int32s (header_words stack pixelSize) @ replicate 800 0 @ buf stack"

section \<open>Small files\<close>

text \<open>
  \<open>example_file\<close> is a header of 96 bytes without extension: dimensions 4, 5, 6 (columns,
  rows, sections), type code 2, grid 4, 5, 6, cell 8.0, 10.0, 12.0, angles 90.0, axis order
  1, 2, 3.  \<open>example_fei_file\<close> has a zero cell, the extension count 15 and, at byte 1024,
  fifteen floats of which item 11, the pixel size, is \<open>2\<^sup>-\<^sup>3\<^sup>3\<close> (about 1.16e-10 m).
\<close>

definition example_words :: "32 word list" where
  "example_words =
     [4, 5, 6, 2, 0, 0, 0, 4, 5, 6, 0x41000000, 0x41200000, 0x41400000,
      0x42B40000, 0x42B40000, 0x42B40000, 1, 2, 3, 0, 0, 0, 0, 0]"

definition example_file :: "byte list" where
  "example_file = int32s example_words"

definition example_fei_words :: "32 word list" where
  "example_fei_words =
     [4, 5, 6, 2, 0, 0, 0, 4, 5, 6, 0, 0, 0,
      0x42B40000, 0x42B40000, 0x42B40000, 1, 2, 3, 0, 0, 0, 0, 15]"

definition example_fei_file :: "byte list" where
  "example_fei_file =
     int32s (example_fei_words @ replicate 232 0
               @ [0, 0, 0, 0, 0, 0, 0, 0, 0, 0, 0, 0x2F000000, 0, 0, 0])"

text \<open>\<open>example_zero_file\<close> is \<open>example_file\<close> with a zero cell.
  \<open>example_complex_file\<close> is a complete file of 1028 bytes with the type code 3
  (complex 16-bit integers): dimensions 1, 1, 1, cell 1.0, 1.0, 1.0, a header filled with
  zeros up to byte 1024, and the one sample \<open>1 + 2i\<close>.\<close>

definition example_zero_words :: "32 word list" where
  "example_zero_words =
     [4, 5, 6, 2, 0, 0, 0, 4, 5, 6, 0, 0, 0,
      0x42B40000, 0x42B40000, 0x42B40000, 1, 2, 3, 0, 0, 0, 0, 0]"

definition example_zero_file :: "byte list" where
  "example_zero_file = int32s example_zero_words"

definition example_complex_words :: "32 word list" where
  "example_complex_words =
     [1, 1, 1, 3, 0, 0, 0, 1, 1, 1, 0x3F800000, 0x3F800000, 0x3F800000,
      0x42B40000, 0x42B40000, 0x42B40000, 1, 2, 3, 0, 0, 0, 0, 0]"

definition example_complex_file :: "byte list" where
  "example_complex_file = int32s (example_complex_words @ replicate 232 0 @ [0x00020001])"

text \<open>What \<^verbatim>\<open>parseHeader\<close> makes of the files.\<close>

definition example_zero_header :: header where
  "example_zero_header =
     \<lparr>dataSize = [6, 5, 4], mrcType = 2, dataType = Float32, gridSize = [6, 5, 4],
      volumeSize = [Fin 0, Fin 0, Fin 0], voxelSize = [Fin 1, Fin 1, Fin 1],
      cellAngles = [Fin 90, Fin 90, Fin 90], axisOrientations = [3, 2, 1],
      Shape = [6, 5, 4], minMaxMean = [0, 0, 0], extra = [0, 0], dataOffset = 1024,
      FEIinfo = None\<rparr>"

definition example_header :: header where
  "example_header =
     \<lparr>dataSize = [6, 5, 4], mrcType = 2, dataType = Float32, gridSize = [6, 5, 4],
      volumeSize = [Fin 12, Fin 10, Fin 8], voxelSize = [Fin 2, Fin 2, Fin 2],
      cellAngles = [Fin 90, Fin 90, Fin 90], axisOrientations = [3, 2, 1],
      Shape = [6, 5, 4], minMaxMean = [0, 0, 0], extra = [0, 0], dataOffset = 1024,
      FEIinfo = None\<rparr>"

definition example_fei_header :: header where
  "example_fei_header =
     \<lparr>dataSize = [6, 5, 4], mrcType = 2, dataType = Float32, gridSize = [6, 5, 4],
      volumeSize = [Fin 0, Fin 0, Fin 0],
      voxelSize = [Fin 1, Fin (9765625 / 8388608), Fin (9765625 / 8388608)],
      cellAngles = [Fin 90, Fin 90, Fin 90], axisOrientations = [3, 2, 1],
      Shape = [6, 5, 4], minMaxMean = [0, 0, 0], extra = [0, 15] @ replicate 32 0,
      dataOffset = 1039,
      FEIinfo = Some [Fin 0, Fin 0, Fin 0, Fin 0, Fin 0, Fin 0, Fin 0, Fin 0, Fin 0, Fin 0,
                      Fin 0, Fin (1 / 2 ^ 33), Fin 0, Fin 0, Fin 0]\<rparr>"

section \<open>Small arrays\<close>

text \<open>
  \<open>example_stack\<close> is the \<^verbatim>\<open>float32\<close> array of shape 2, 2, 2 with the items 1.0 to 8.0,
  \<open>example_plane\<close> has the same items in two dimensions and \<open>example_hyper\<close> in four,
  and \<open>example_strided\<close> and \<open>example_strided_plane\<close> are arrays with the items of
  \<open>example_stack\<close> whose memory is not in C order.
\<close>

definition example_items :: "byte list" where
  "example_items =
     int32s [0x3F800000, 0x40000000, 0x40400000, 0x40800000,
             0x40A00000, 0x40C00000, 0x40E00000, 0x41000000]"

definition example_stack :: ndarray where
  "example_stack = \<lparr>dtype = Float32, shape = [2, 2, 2], buf = example_items, c_contiguous = True\<rparr>"

definition example_plane :: ndarray where
  "example_plane = \<lparr>dtype = Float32, shape = [2, 4], buf = example_items, c_contiguous = True\<rparr>"

definition example_hyper :: ndarray where
  "example_hyper =
     \<lparr>dtype = Float32, shape = [1, 2, 2, 2], buf = example_items, c_contiguous = True\<rparr>"

definition example_strided :: ndarray where
  "example_strided = example_stack\<lparr>c_contiguous := False\<rparr>"

definition example_strided_plane :: ndarray where
  "example_strided_plane = example_plane\<lparr>c_contiguous := False\<rparr>"

text \<open>An \<^verbatim>\<open>int8\<close> array of shape \<open>2\<^sup>3\<^sup>2\<close>, 1, 1 (4 GiB of zeros).\<close>

definition long_zeros :: "byte list" where
  "long_zeros = replicate 4294967296 0"

definition example_long :: ndarray where
  "example_long =
     \<lparr>dtype = Int8, shape = [4294967296, 1, 1], buf = long_zeros, c_contiguous = True\<rparr>"

definition no_files :: world where
  "no_files = \<lparr>files = Map.empty, open_handles = 0\<rparr>"

section \<open>Lemmas\<close>

subsection \<open>Items and little-endian words\<close>

lemma length_chunks [simp]: "length (chunks k n bs) = n"
  by (induction n arbitrary: bs) simp_all

lemma chunks_map: "chunks k n bs = map (\<lambda>i. take k (drop (i * k) bs)) [0..<n]"
proof (induction n arbitrary: bs)
  case 0
  show ?case by simp
next
  case (Suc n)
  have "map (\<lambda>i. take k (drop (i * k) bs)) [0..<Suc n]
      = take k bs # map (\<lambda>i. take k (drop (Suc i * k) bs)) [0..<n]"
    by (simp add: upt_conv_Cons map_Suc_upt [symmetric] del: upt_Suc)
  also have "\<dots> = take k bs # map (\<lambda>i. take k (drop (i * k) (drop k bs))) [0..<n]"
    by (simp add: add.commute)
  finally show ?case using Suc by simp
qed

lemma concat_chunks: "n * k \<le> length bs \<Longrightarrow> concat (chunks k n bs) = take (n * k) bs"
proof (induction n arbitrary: bs)
  case 0
  show ?case by simp
next
  case (Suc n)
  then have "n * k \<le> length (drop k bs)" by simp
  then have "concat (chunks k n (drop k bs)) = take (n * k) (drop k bs)" by (rule Suc.IH)
  then show ?case by (simp add: take_add add.commute)
qed

lemma of_le_le32 [simp]: "of_le (le32 w) = w"
  unfolding le32_def
  apply simp
  apply (rule bit_word_eqI)
  apply (auto simp add: bit_simps)
  subgoal for n by (cases "n < 24") auto
  done

lemma length_le32 [simp]: "length (le32 w) = 4"
  by (simp add: le32_def)

lemma length_int32s [simp]: "length (int32s ws) = 4 * length ws"
  by (induction ws) (simp_all add: int32s_def)



lemma length_float32_bytes [simp]: "length (float32_bytes v) = 4"
  by (simp add: float32_bytes_def)

lemma int32s_Nil [simp]: "int32s [] = []"
  by (simp add: int32s_def)

lemma int32s_Cons [simp]: "int32s (w # ws) = le32 w @ int32s ws"
  by (simp add: int32s_def)

lemma int32s_append [simp]: "int32s (xs @ ys) = int32s xs @ int32s ys"
  by (simp add: int32s_def)

lemma le32_0: "le32 0 = replicate 4 0"
  by (simp add: le32_def numeral_eq_Suc)

lemma int32s_replicate_0: "int32s (replicate n 0) = replicate (4 * n) 0"
  by (induction n) (simp_all add: le32_0 replicate_add)

lemma le32_marker: "le32 0x4144 = [68, 65, 0, 0]"
  by (simp add: le32_def)

subsection \<open>Rounding\<close>

lemma expo64_ge: "- 1022 \<le> expo64 n x"
  by (induction n) simp_all


lemma expo64_gt: "x < 2 powi (int n - 1022) \<Longrightarrow> x < 2 powi (expo64 n x + 1)"
proof (induction n)
  case 0
  have "(2::real) powi (- 1022) \<le> 2 powi (- 1021)"
    by (rule power_int_increasing) simp_all
  then show ?case using 0 by simp
next
  case (Suc k)
  show ?case
  proof (cases "2 powi (int k - 1022) \<le> x")
    case True
    then show ?thesis using Suc.prems by (simp add: algebra_simps)
  next
    case False
    then show ?thesis using Suc.IH by simp
  qed
qed






















subsection \<open>The bytes that the writer leaves\<close>

lemma chunks_Nil_iff [simp]: "chunks k n bs = [] \<longleftrightarrow> n = 0"
  by (cases n) simp_all

lemma items_Nil_iff: "items a = [] \<longleftrightarrow> size_of a = 0"
  by (simp add: items_def)

lemma py_index_ok [simp]: "i < length xs \<Longrightarrow> py_index xs i = Inr (xs ! i)"
  by (simp add: py_index_def)

lemma attempt_Inr [simp]: "attempt (Inr x) f k = k x"
  by (simp add: attempt_def)

lemma attempt_Inl [simp]: "attempt (Inl e) f k = (Inl e, f)"
  by (simp add: attempt_def)

lemma write_body_ok:
  assumes sh: "shape stack = [n0, n1, n2]"
    and cc: "c_contiguous stack"
    and code: "mrc_code (dtype stack) = Some code"
    and px: "3 \<le> length pixelSize"
    and sz: "0 < size_of stack"
  shows "write_body stack pixelSize forceWrite \<lparr>content = [], pos = 0\<rparr>
       = (Inr 1, \<lparr>content = mrc_file stack pixelSize, pos = 1024 + length (buf stack)\<rparr>)"
proof -
  have it: "items stack \<noteq> []" using sz by (simp add: items_Nil_iff)
  have pxne: "pixelSize \<noteq> []" using px by auto
  have tb: "(if forceWrite then tobytes (np_ascontiguousarray stack) else tobytes stack) = Inr (buf stack)"
    using cc by (simp add: tobytes_def np_ascontiguousarray_def)
  show ?thesis
    unfolding write_body_def Let_def
    using sh px pxne it code
    apply (simp add: tb np_min_def np_max_def)
    apply (simp add: fwrite_def fseek_def int32s_replicate_0 mrc_file_def header_words_def
        float32_bytes_def le32_marker le32_0)
    apply (simp flip: replicate_add)
    done
qed

subsection \<open>Reading the fixed header\<close>

lemma np_fromfile_eq:
  assumes "0 \<le> n"
  shows "np_fromfile \<lparr>content = c, pos = p\<rparr> k n =
     (map (\<lambda>i. take k (drop (p + i * k) c)) [0..<min (nat n) ((length c - p) div k)],
      \<lparr>content = c, pos = p + min (nat n) ((length c - p) div k) * k\<rparr>)"
  using assms by (simp add: np_fromfile_def Let_def chunks_map add.commute)

lemma read_int32_short:
  "read_int32 \<lparr>content = c, pos = 4 * q\<rparr> (int n) =
     (map (int32_at c) [q..<q + min n ((length c - 4 * q) div 4)],
      \<lparr>content = c, pos = 4 * (q + min n ((length c - 4 * q) div 4))\<rparr>)"
proof -
  let ?m = "min n ((length c - 4 * q) div 4)"
  have "map (\<lambda>i. sint (of_le (take 4 (drop (4 * q + i * 4) c)) :: 32 word)) [0..<?m]
      = map (int32_at c) [q..<q + ?m]"
    by (rule nth_equalityI) (simp_all add: int32_at_def word_at_def algebra_simps)
  then show ?thesis
    by (simp add: read_int32_def np_fromfile_eq o_def algebra_simps)
qed

lemma read_float32_short:
  "read_float32 \<lparr>content = c, pos = 4 * q\<rparr> (int n) =
     (map (float32_at c) [q..<q + min n ((length c - 4 * q) div 4)],
      \<lparr>content = c, pos = 4 * (q + min n ((length c - 4 * q) div 4))\<rparr>)"
proof -
  let ?m = "min n ((length c - 4 * q) div 4)"
  have "map (\<lambda>i. f32_val (of_le (take 4 (drop (4 * q + i * 4) c)) :: 32 word)) [0..<?m]
      = map (float32_at c) [q..<q + ?m]"
    by (rule nth_equalityI) (simp_all add: float32_at_def word_at_def algebra_simps)
  then show ?thesis
    by (simp add: read_float32_def np_fromfile_eq o_def algebra_simps)
qed

lemma read_int32_at:
  assumes "4 * (q + n) \<le> length c"
  shows "read_int32 \<lparr>content = c, pos = 4 * q\<rparr> (int n) =
     (map (int32_at c) [q..<q + n], \<lparr>content = c, pos = 4 * (q + n)\<rparr>)"
proof -
  have m: "min n ((length c - 4 * q) div 4) = n" using assms by simp
  show ?thesis unfolding read_int32_short m ..
qed

lemma read_float32_at:
  assumes "4 * (q + n) \<le> length c"
  shows "read_float32 \<lparr>content = c, pos = 4 * q\<rparr> (int n) =
     (map (float32_at c) [q..<q + n], \<lparr>content = c, pos = 4 * (q + n)\<rparr>)"
proof -
  have m: "min n ((length c - 4 * q) div 4) = n" using assms by simp
  show ?thesis unfolding read_float32_short m ..
qed

lemmas rd_i10 = read_int32_short [where n = 10, simplified]
lemmas rd_i3 = read_int32_short [where n = 3, simplified]
lemmas rd_i34 = read_int32_short [where n = 34, simplified]
lemmas rd_f6 = read_float32_short [where n = 6, simplified]
lemmas rd_f15 = read_float32_short [where n = 15, simplified]

lemma bind_e_InrE:
  assumes "bind_e m k = Inr y"
  obtains x where "m = Inr x" and "k x = Inr y"
  using assms by (cases m) (simp_all add: bind_e_def)

lemma np_index_1_length: "np_index xs 1 = Inr x \<Longrightarrow> 2 \<le> length xs"
  by (simp add: np_index_def Let_def split: if_splits)

lemma parse_ok_length:
  assumes "parse \<lparr>content = c, pos = 0\<rparr> = Inr (h, f')"
  shows "96 \<le> length c"
proof -
  obtain m1 where m1: "m1 = min 10 (length c div 4)" by simp
  obtain m2 where m2: "m2 = min 6 ((length c - 4 * m1) div 4)" by simp
  obtain m3 where m3: "m3 = min 3 ((length c - 4 * (m1 + m2)) div 4)" by simp
  obtain m4 where m4: "m4 = min 3 ((length c - 4 * (m1 + m2 + m3)) div 4)" by simp
  obtain m5 where m5: "m5 = min 34 ((length c - 4 * (m1 + m2 + m3 + m4)) div 4)" by simp
  have r1: "read_int32 \<lparr>content = c, pos = 0\<rparr> 10 = (map (int32_at c) [0..<m1], \<lparr>content = c, pos = 4 * m1\<rparr>)"
    using rd_i10 [of c 0] by (simp add: m1)
  have r2: "read_float32 \<lparr>content = c, pos = 4 * m1\<rparr> 6 = (map (float32_at c) [m1..<m1 + m2], \<lparr>content = c, pos = 4 * (m1 + m2)\<rparr>)"
    using rd_f6 [of c m1] by (simp add: m2)
  have r3: "read_int32 \<lparr>content = c, pos = 4 * (m1 + m2)\<rparr> 3 = (map (int32_at c) [m1 + m2..<m1 + m2 + m3], \<lparr>content = c, pos = 4 * (m1 + m2 + m3)\<rparr>)"
    using rd_i3 [of c "m1 + m2"] by (simp add: m3)
  have r4: "read_int32 \<lparr>content = c, pos = 4 * (m1 + m2 + m3)\<rparr> 3 = (map (int32_at c) [m1 + m2 + m3..<m1 + m2 + m3 + m4], \<lparr>content = c, pos = 4 * (m1 + m2 + m3 + m4)\<rparr>)"
    using rd_i3 [of c "m1 + m2 + m3"] by (simp add: m4)
  have r5: "read_int32 \<lparr>content = c, pos = 4 * (m1 + m2 + m3 + m4)\<rparr> 34 = (map (int32_at c) [m1 + m2 + m3 + m4..<m1 + m2 + m3 + m4 + m5], \<lparr>content = c, pos = 4 * (m1 + m2 + m3 + m4 + m5)\<rparr>)"
    using rd_i34 [of c "m1 + m2 + m3 + m4"] by (simp add: m5)
  have "\<exists>x. np_index (map (int32_at c) [m1 + m2 + m3 + m4..<m1 + m2 + m3 + m4 + m5]) 1 = Inr x"
    using assms unfolding parse_def Let_def r1 r2 r3 r4 r5 prod.case
    apply -
    apply (erule bind_e_InrE)
    apply (erule bind_e_InrE)
    apply (erule bind_e_InrE)
    apply (erule bind_e_InrE)
    apply (erule bind_e_InrE)
    apply (rule exI)
    apply assumption
    done
  then obtain x where "np_index (map (int32_at c) [m1 + m2 + m3 + m4..<m1 + m2 + m3 + m4 + m5]) 1 = Inr x" ..
  then have "2 \<le> m5"
    using np_index_1_length by fastforce
  then have L: "4 * (m1 + m2 + m3 + m4) + 8 \<le> length c"
    unfolding m5 by (simp add: min_def split: if_splits)
  have e1: "m1 = 10" using L m1 by (simp add: min_def split: if_splits)
  have e2: "m2 = 6" using L m2 by (simp add: min_def split: if_splits)
  have e3: "m3 = 3" using L m3 by (simp add: min_def split: if_splits)
  have e4: "m4 = 3" using L m4 by (simp add: min_def split: if_splits)
  show ?thesis using L unfolding e1 e2 e3 e4 by simp
qed

lemma np_index_upt_1:
  "2 \<le> m \<Longrightarrow> np_index (map f [q..<q + m]) 1 = Inr (f (Suc q))"
  by (simp add: np_index_def Let_def)

lemma parse_long:
  assumes len: "96 \<le> length c"
  shows "parse \<lparr>content = c, pos = 0\<rparr> =
     bind_e (getMRCType (file_code c)) (\<lambda>dataType'.
     bind_e (if \<not> (none_nonzero_f (file_cell c) \<or> none_nonzero_i (file_grid c))
             then np_divide (file_cell c) (file_grid c) else Inr [Fin 1, Fin 1, Fin 1])
       (\<lambda>voxelSize'.
     bind_e (collect (map (\<lambda>x. np_index (file_dims c) (x - 1)) (file_axes c))) (\<lambda>Shape'.
     bind_e (if ext_count c \<noteq> 0
             then bind_e (read_FEI \<lparr>content = c, pos = 1024\<rparr>
                            (\<not> (none_nonzero_f (file_cell c) \<or> none_nonzero_i (file_grid c)))
                            (rev voxelSize'))
                    (\<lambda>(info, vox, f7). Inr (Some info, vox, f7))
             else Inr (None, rev voxelSize', \<lparr>content = c, pos = 1024\<rparr>)) (\<lambda>(fei, vox, f8).
     Inr (\<lparr>dataSize = rev (file_dims c), mrcType = file_code c, dataType = dataType',
           gridSize = rev (file_grid c), volumeSize = rev (file_cell c), voxelSize = vox,
           cellAngles = rev (file_angles c),
           axisOrientations = rev (file_axes c), Shape = rev Shape',
           minMaxMean = [int32_at c 19, int32_at c 20, int32_at c 21],
           extra = map (int32_at c) [22..<22 + min 34 ((length c - 88) div 4)],
           dataOffset = 1024 + ext_count c, FEIinfo = fei\<rparr>, f8)))))"
proof -
  have u1: "[0..<10] = [0, 1, 2, 3, 4, 5, 6, 7, 8, 9::nat]"
    and u2: "[10..<16] = [10, 11, 12, 13, 14, 15::nat]"
    and u3: "[16..<19] = [16, 17, 18::nat]"
    and u4: "[19..<22] = [19, 20, 21::nat]"
    by (simp_all add: upt_rec)
  have r1: "read_int32 \<lparr>content = c, pos = 0\<rparr> 10 =
      (map (int32_at c) [0, 1, 2, 3, 4, 5, 6, 7, 8, 9], \<lparr>content = c, pos = 40\<rparr>)"
    using read_int32_at [of 0 10 c] len unfolding u1 [symmetric] by simp
  have r2: "read_float32 \<lparr>content = c, pos = 40\<rparr> 6 =
      (map (float32_at c) [10, 11, 12, 13, 14, 15], \<lparr>content = c, pos = 64\<rparr>)"
    using read_float32_at [of 10 6 c] len unfolding u2 [symmetric] by simp
  have r3: "read_int32 \<lparr>content = c, pos = 64\<rparr> 3 =
      (map (int32_at c) [16, 17, 18], \<lparr>content = c, pos = 76\<rparr>)"
    using read_int32_at [of 16 3 c] len unfolding u3 [symmetric] by simp
  have r4: "read_int32 \<lparr>content = c, pos = 76\<rparr> 3 =
      (map (int32_at c) [19, 20, 21], \<lparr>content = c, pos = 88\<rparr>)"
    using read_int32_at [of 19 3 c] len unfolding u4 [symmetric] by simp
  define m where "m = min 34 ((length c - 88) div 4)"
  have "8 \<le> length c - 88" using len by linarith
  then have m2: "2 \<le> m" by (simp add: m_def less_eq_div_iff_mult_less_eq)
  have r5: "read_int32 \<lparr>content = c, pos = 88\<rparr> 34 =
      (map (int32_at c) [22..<22 + m], \<lparr>content = c, pos = 4 * (22 + m)\<rparr>)"
    using rd_i34 [of c 22] by (simp add: m_def)
  have ix: "np_index (map (int32_at c) [22..<22 + m]) 1 = Inr (ext_count c)"
    using np_index_upt_1 [OF m2, of "int32_at c" 22] by (simp add: ext_count_def)
  have i3: "np_index (map (int32_at c) [0, 1, 2, 3, 4, 5, 6, 7, 8, 9]) 3 = Inr (file_code c)"
    by (simp add: np_index_def file_code_def)
  have b: "\<And>x k. bind_e (Inr x) k = k x" by (simp add: bind_e_def)
  have t1: "take 3 (map (int32_at c) [0, 1, 2, 3, 4, 5, 6, 7, 8, 9]) = file_dims c"
    and t2: "take 3 (drop 7 (map (int32_at c) [0, 1, 2, 3, 4, 5, 6, 7, 8, 9])) = file_grid c"
    and t3: "take 3 (map (float32_at c) [10, 11, 12, 13, 14, 15]) = file_cell c"
    and t4: "take 3 (drop 3 (map (float32_at c) [10, 11, 12, 13, 14, 15])) = file_angles c"
    and t5: "map (int32_at c) [16, 17, 18] = file_axes c"
    and t6: "map (int32_at c) [19, 20, 21] = [int32_at c 19, int32_at c 20, int32_at c 21]"
    and t7: "fseek 1024 \<lparr>content = c, pos = 4 * (22 + m)\<rparr> = \<lparr>content = c, pos = 1024\<rparr>"
    by (simp_all add: file_dims_def file_grid_def file_cell_def file_angles_def file_axes_def
        fseek_def)
  show ?thesis
    unfolding parse_def Let_def r1 r2 r3 r4 r5 prod.case ix i3 b t1 t2 t3 t4 t5 t6 t7
    unfolding m_def ..
qed

lemma word_at_int32s: "i < length ws \<Longrightarrow> word_at (int32s ws @ rest) i = ws ! i"
proof (induction ws arbitrary: i)
  case Nil
  then show ?case by simp
next
  case (Cons w ws)
  show ?case
  proof (cases i)
    case 0
    then show ?thesis by (simp add: word_at_def)
  next
    case (Suc j)
    then have "j < length ws" using Cons.prems by simp
    then have "word_at (int32s ws @ rest) j = ws ! j" by (rule Cons.IH)
    then show ?thesis using Suc by (simp add: word_at_def)
  qed
qed

lemma word_at_int32s' : "i < length ws \<Longrightarrow> word_at (int32s ws) i = ws ! i"
  using word_at_int32s [of i ws "[]"] by simp

lemma np_index_upt_3:
  "4 \<le> m \<Longrightarrow> np_index (map f [0..<m]) 3 = Inr (f 3)"
  by (simp add: np_index_def Let_def)

lemma parse_unsupported:
  assumes len: "16 \<le> length c" and code: "getMRCType (file_code c) = Inl e"
  shows "parse \<lparr>content = c, pos = 0\<rparr> = Inl e"
proof -
  define m where "m = min 10 (length c div 4)"
  have m4: "4 \<le> m" using len by (simp add: m_def less_eq_div_iff_mult_less_eq)
  have r1: "read_int32 \<lparr>content = c, pos = 0\<rparr> 10 =
      (map (int32_at c) [0..<m], \<lparr>content = c, pos = 4 * m\<rparr>)"
    using rd_i10 [of c 0] by (simp add: m_def)
  have i3: "np_index (map (int32_at c) [0..<m]) 3 = Inr (file_code c)"
    using np_index_upt_3 [OF m4] by (simp add: file_code_def)
  show ?thesis
    unfolding parse_def r1 prod.case i3
    by (simp add: bind_e_def code)
qed

lemma mrcReader_fst:
  assumes "files w fname = Some c"
  shows "fst (mrcReader w fname) =
     bind_e (parse \<lparr>content = c, pos = 0\<rparr>)
       (\<lambda>(h, f). getDataset \<lparr>filename = fname, fid = Some f\<rparr> h)"
  using assms
  by (cases "parse \<lparr>content = c, pos = 0\<rparr>")
     (auto simp add: mrcReader_def fileMRC_init_def parseHeader_def bind_e_def split: prod.splits)

lemma parse_Inr_fields:
  assumes "parse \<lparr>content = c, pos = 0\<rparr> = Inr (h, f')"
  shows "96 \<le> length c \<and> getMRCType (file_code c) = Inr (dataType h)
     \<and> mrcType h = file_code c \<and> dataSize h = rev (file_dims c)
     \<and> gridSize h = rev (file_grid c) \<and> volumeSize h = rev (file_cell c)
     \<and> cellAngles h = rev (file_angles c) \<and> axisOrientations h = rev (file_axes c)
     \<and> collect (map (\<lambda>x. np_index (file_dims c) (x - 1)) (file_axes c)) = Inr (rev (Shape h))
     \<and> dataOffset h = 1024 + ext_count c
     \<and> (\<exists>vs. (if \<not> (none_nonzero_f (file_cell c) \<or> none_nonzero_i (file_grid c))
                then np_divide (file_cell c) (file_grid c) else Inr [Fin 1, Fin 1, Fin 1]) = Inr vs
            \<and> (if ext_count c \<noteq> 0
                 then \<exists>info. read_FEI \<lparr>content = c, pos = 1024\<rparr>
                          (\<not> (none_nonzero_f (file_cell c) \<or> none_nonzero_i (file_grid c)))
                          (rev vs) = Inr (info, voxelSize h, f') \<and> FEIinfo h = Some info
                 else voxelSize h = rev vs \<and> FEIinfo h = None))"
proof -
  have len: "96 \<le> length c" by (rule parse_ok_length [OF assms])
  show ?thesis
    using assms [unfolded parse_long [OF len]] len
    apply -
    apply (erule bind_e_InrE)
    apply (erule bind_e_InrE)
    apply (erule bind_e_InrE)
    apply (erule bind_e_InrE)
    apply (auto split: prod.splits if_splits elim!: bind_e_InrE)
    done
qed

subsection \<open>The small files, decoded\<close>

lemma expo_numeral:
  "expo (numeral n) x = (if 2 powi (int (pred_numeral n) - 126) \<le> x then int (pred_numeral n) - 126 else expo (pred_numeral n) x)"
  by (simp add: numeral_eq_Suc)

lemmas f32_eval = f32_of_real_def f32_pack_def rhe_def expo_numeral np_float32_def f32_val_def

lemma length_example_file: "length example_file = 96"
  by (simp add: example_file_def example_words_def)

lemma word_at_example: "i < 24 \<Longrightarrow> word_at example_file i = example_words ! i"
  unfolding example_file_def by (rule word_at_int32s') (simp add: example_words_def)

lemma example_fields:
  "file_dims example_file = [4, 5, 6]"
  "file_code example_file = 2"
  "file_grid example_file = [4, 5, 6]"
  "file_cell example_file = [Fin 8, Fin 10, Fin 12]"
  "file_angles example_file = [Fin 90, Fin 90, Fin 90]"
  "file_axes example_file = [1, 2, 3]"
  "ext_count example_file = 0"
  by (simp_all add: file_dims_def file_code_def file_grid_def file_cell_def file_angles_def
      file_axes_def ext_count_def int32_at_def float32_at_def word_at_example
      example_words_def f32_val_def)

lemma div32_example: "div32 (Fin 8) 4 = Fin 2" "div32 (Fin 10) 5 = Fin 2" "div32 (Fin 12) 6 = Fin 2"
  by (simp_all add: div32_def f32_eval)


lemma collect_map_Inr:
  "(\<And>x. x \<in> set xs \<Longrightarrow> f x = Inr (g x)) \<Longrightarrow> collect (map f xs) = Inr (map g xs)"
  by (induction xs) (simp_all add: bind_e_def)

lemma np_divide_3: "np_divide [a, b, c] [x, y, z] = Inr [div32 a x, div32 b y, div32 c z]"
  by (simp add: np_divide_def)

lemma parse_example:
  "parse \<lparr>content = example_file, pos = 0\<rparr>
     = Inr (example_header, \<lparr>content = example_file, pos = 1024\<rparr>)"
proof -
  have ex: "map (int32_at example_file) [22..<22 + min 34 ((length example_file - 88) div 4)] = [0, 0]"
    by (simp add: length_example_file upt_rec int32_at_def word_at_example example_words_def)
  have sh: "collect (map (\<lambda>x. np_index [4, 5, 6] (x - 1)) [1, 2, 3]) = Inr [4, 5, 6 :: int]"
    by (simp add: np_index_def bind_e_def)
  show ?thesis
    unfolding parse_long [of example_file, unfolded length_example_file, simplified]
      example_fields ex sh
    by (simp add: bind_e_def getMRCType_def none_nonzero_f_def none_nonzero_i_def np_divide_3
        div32_example example_header_def int32_at_def word_at_example example_words_def)
qed

subsection \<open>The vendor block\<close>

lemma collect_fail:
  "(\<And>x. x \<in> set xs \<Longrightarrow> f x = Inr (g x)) \<Longrightarrow> f y = Inl e
     \<Longrightarrow> collect (map f (xs @ y # zs)) = Inl e"
  by (induction xs) (simp_all add: bind_e_def)

lemma collect_py_index:
  "collect (map (py_index xs) [0..<n]) = (if n \<le> length xs then Inr (take n xs) else Inl IndexError)"
proof (cases "n \<le> length xs")
  case True
  have "collect (map (py_index xs) [0..<n]) = Inr (map ((!) xs) [0..<n])"
    using True by (intro collect_map_Inr) simp
  also have "map ((!) xs) [0..<n] = take n xs"
    using True by (intro nth_equalityI) simp_all
  finally show ?thesis using True by simp
next
  case False
  then have "[0..<n] = [0..<length xs] @ length xs # [Suc (length xs)..<n]"
    by (metis not_le_imp_less upt_conv_Cons upt_add_eq_append le0 le_add_diff_inverse less_imp_le_nat)
  moreover have "collect (map (py_index xs) ([0..<length xs] @ length xs # [Suc (length xs)..<n])) = Inl IndexError"
    by (rule collect_fail [where g = "(!) xs"]) (simp_all add: py_index_def)
  ultimately show ?thesis using False by simp
qed

lemma read_FEI_eq:
  assumes "length vox = 3"
  shows "read_FEI \<lparr>content = c, pos = 1024\<rparr> single vox =
     (if 1084 \<le> length c
      then Inr (map (float32_at c) [256..<271],
                [store single (Fin 1),
                 store single (fmul (file_pixel_size c) (Fin 10000000000)),
                 store single (fmul (file_pixel_size c) (Fin 10000000000))],
                \<lparr>content = c, pos = 1084\<rparr>)
      else Inl IndexError)"
proof -
  define m where "m = min 15 ((length c - 1024) div 4)"
  have r: "read_float32 \<lparr>content = c, pos = 1024\<rparr> 15 =
      (map (float32_at c) [256..<256 + m], \<lparr>content = c, pos = 4 * (256 + m)\<rparr>)"
    using rd_f15 [of c 256] by (simp add: m_def)
  obtain a b d where vox: "vox = [a, b, d]"
    using assms by (cases vox; cases "tl vox"; cases "tl (tl vox)") auto
  show ?thesis
  proof (cases "1084 \<le> length c")
    case True
    then have "60 \<le> length c - 1024" by linarith
    then have m15: "m = 15" by (simp add: m_def min_def less_eq_div_iff_mult_less_eq)
    have px: "py_index (map (float32_at c) [256..<271]) 11 = Inr (file_pixel_size c)"
      by (simp add: py_index_def file_pixel_size_def)
    show ?thesis
      unfolding read_FEI_def r prod.case collect_py_index m15
      using True
      by (simp add: px bind_e_def np_setitem_def vox file_pixel_size_def)
  next
    case False
    then have "length c - 1024 < 60" by linarith
    then have m15: "m < 15" by (simp add: m_def min_def div_less_iff_less_mult)
    show ?thesis
      unfolding read_FEI_def r prod.case collect_py_index
      using False m15 by (simp add: bind_e_def)
  qed
qed


lemma word_at_example_fei: "i < 271 \<Longrightarrow> word_at example_fei_file i =
    (example_fei_words @ replicate 232 0 @ [0, 0, 0, 0, 0, 0, 0, 0, 0, 0, 0, 0x2F000000, 0, 0, 0]) ! i"
  unfolding example_fei_file_def by (rule word_at_int32s') (simp add: example_fei_words_def)

lemma length_example_fei_file: "length example_fei_file = 1084"
  by (simp add: example_fei_file_def example_fei_words_def)

lemma example_fei_fields:
  "file_dims example_fei_file = [4, 5, 6]"
  "file_code example_fei_file = 2"
  "file_grid example_fei_file = [4, 5, 6]"
  "file_cell example_fei_file = [Fin 0, Fin 0, Fin 0]"
  "file_angles example_fei_file = [Fin 90, Fin 90, Fin 90]"
  "file_axes example_fei_file = [1, 2, 3]"
  "ext_count example_fei_file = 15"
  "file_pixel_size example_fei_file = Fin (1 / 2 ^ 33)"
  by (simp_all add: file_dims_def file_code_def file_grid_def file_cell_def file_angles_def
      file_axes_def ext_count_def file_pixel_size_def int32_at_def float32_at_def
      word_at_example_fei example_fei_words_def f32_val_def nth_append)

lemma replicate_32: "replicate 32 x = [x, x, x, x, x, x, x, x, x, x, x, x, x, x, x, x, x, x, x, x, x, x, x, x,
      x, x, x, x, x, x, x, x]"
  by (simp add: numeral_eq_Suc)

lemma extra_example_fei:
  "map (int32_at example_fei_file) [22..<56] = [0, 15] @ replicate 32 0"
  by (simp add: upt_rec int32_at_def word_at_example_fei example_fei_words_def nth_append
      replicate_32)

lemma parse_example_fei:
  "parse \<lparr>content = example_fei_file, pos = 0\<rparr>
     = Inr (example_fei_header, \<lparr>content = example_fei_file, pos = 1084\<rparr>)"
proof -
  have fei: "float32_at example_fei_file 256 = Fin 0" "float32_at example_fei_file 257 = Fin 0"
    "float32_at example_fei_file 258 = Fin 0" "float32_at example_fei_file 259 = Fin 0"
    "float32_at example_fei_file 260 = Fin 0" "float32_at example_fei_file 261 = Fin 0"
    "float32_at example_fei_file 262 = Fin 0" "float32_at example_fei_file 263 = Fin 0"
    "float32_at example_fei_file 264 = Fin 0" "float32_at example_fei_file 265 = Fin 0"
    "float32_at example_fei_file 266 = Fin 0" "float32_at example_fei_file 267 = Fin (1 / 2 ^ 33)"
    "float32_at example_fei_file 268 = Fin 0" "float32_at example_fei_file 269 = Fin 0"
    "float32_at example_fei_file 270 = Fin 0"
    by (simp_all add: float32_at_def word_at_example_fei example_fei_words_def nth_append
        f32_val_def)
  have sh: "collect (map (\<lambda>x. np_index [4, 5, 6] (x - 1)) [1, 2, 3]) = Inr [4, 5, 6 :: int]"
    by (simp add: np_index_def bind_e_def)
  have rf: "read_FEI \<lparr>content = example_fei_file, pos = 1024\<rparr> False [Fin 1, Fin 1, Fin 1]
      = Inr (map (float32_at example_fei_file) [256..<271],
             [Fin 1, Fin (9765625 / 8388608), Fin (9765625 / 8388608)],
             \<lparr>content = example_fei_file, pos = 1084\<rparr>)"
    by (simp add: read_FEI_eq length_example_fei_file example_fei_fields store_def)
  have m: "22 + min 34 ((length example_fei_file - 88) div 4) = 56"
    by (simp add: length_example_fei_file)
  have mmm: "[int32_at example_fei_file 19, int32_at example_fei_file 20, int32_at example_fei_file 21] = [0, 0, 0]"
    by (simp add: int32_at_def word_at_example_fei example_fei_words_def)
  have len: "96 \<le> length example_fei_file" by (simp add: length_example_fei_file)
  show ?thesis
    unfolding parse_long [OF len] example_fei_fields m extra_example_fei mmm
    by (simp add: bind_e_def getMRCType_def none_nonzero_f_def np_index_def rf fei example_fei_header_def)
qed

lemma length_example_zero_file: "length example_zero_file = 96"
  by (simp add: example_zero_file_def example_zero_words_def)

lemma word_at_example_zero: "i < 24 \<Longrightarrow> word_at example_zero_file i = example_zero_words ! i"
  unfolding example_zero_file_def by (rule word_at_int32s') (simp add: example_zero_words_def)

lemma example_zero_fields:
  "file_dims example_zero_file = [4, 5, 6]"
  "file_code example_zero_file = 2"
  "file_grid example_zero_file = [4, 5, 6]"
  "file_cell example_zero_file = [Fin 0, Fin 0, Fin 0]"
  "file_angles example_zero_file = [Fin 90, Fin 90, Fin 90]"
  "file_axes example_zero_file = [1, 2, 3]"
  "ext_count example_zero_file = 0"
  by (simp_all add: file_dims_def file_code_def file_grid_def file_cell_def file_angles_def
      file_axes_def ext_count_def int32_at_def float32_at_def word_at_example_zero
      example_zero_words_def f32_val_def)

lemma parse_example_zero:
  "parse \<lparr>content = example_zero_file, pos = 0\<rparr>
     = Inr (example_zero_header, \<lparr>content = example_zero_file, pos = 1024\<rparr>)"
proof -
  have len: "96 \<le> length example_zero_file" by (simp add: length_example_zero_file)
  show ?thesis
    unfolding parse_long [OF len] example_zero_fields
    by (simp add: bind_e_def getMRCType_def none_nonzero_f_def np_index_def
        example_zero_header_def int32_at_def word_at_example_zero example_zero_words_def
        length_example_zero_file)
qed

lemma length_example_complex_file: "length example_complex_file = 1028"
  by (simp add: example_complex_file_def example_complex_words_def)

lemma file_code_complex: "file_code example_complex_file = 3"
  using word_at_int32s [of 3 example_complex_words "int32s (replicate 232 0 @ [0x00020001])"]
  by (simp add: file_code_def int32_at_def example_complex_file_def example_complex_words_def)

lemma getMRCType_cases:
  "getMRCType t = Inr d \<Longrightarrow>
     (t = 0 \<and> d = Int8) \<or> (t = 1 \<and> d = Int16) \<or> (t = 2 \<and> d = Float32) \<or> (t = 6 \<and> d = UInt16)"
  by (auto simp add: getMRCType_def split: if_splits)

lemma parse_dataOffset:
  "parse \<lparr>content = c, pos = 0\<rparr> = Inr (h, f') \<Longrightarrow> dataOffset h = 1024 + ext_count c"
  using parse_Inr_fields by blast

lemma np_index_perm:
  "a \<in> {1, 2, 3} \<Longrightarrow> np_index [x, y, z] (a - 1) = Inr ([x, y, z] ! nat (a - 1))"
  by (auto simp add: np_index_def)

lemma np_float32_1: "np_float32 (Fin 1) = Fin 1"
  by (simp add: f32_eval)

lemma store_1 [simp]: "store s (Fin 1) = Fin 1"
  by (simp add: store_def np_float32_1)

lemma voxel0_cases:
  "(if \<not> (none_nonzero_f (file_cell c) \<or> none_nonzero_i (file_grid c))
    then np_divide (file_cell c) (file_grid c) else Inr [Fin 1, Fin 1, Fin 1])
   = Inr (if none_nonzero_f (file_cell c) \<or> none_nonzero_i (file_grid c)
          then [Fin 1, Fin 1, Fin 1] else map2 div32 (file_cell c) (file_grid c))"
  by (simp add: file_cell_def file_grid_def np_divide_3)

lemma parse_dataType:
  assumes len: "96 \<le> length c" and ax: "set (file_axes c) \<subseteq> {1, 2, 3}"
    and ext: "ext_count c = 0"
  shows "map_sum id (dataType \<circ> fst) (parse \<lparr>content = c, pos = 0\<rparr>) = getMRCType (file_code c)"
proof -
  have sh: "collect (map (\<lambda>x. np_index (file_dims c) (x - 1)) (file_axes c))
      = Inr (map (\<lambda>a. file_dims c ! nat (a - 1)) (file_axes c))"
  proof (rule collect_map_Inr)
    fix x
    assume "x \<in> set (file_axes c)"
    then have "x \<in> {1, 2, 3}" using ax by blast
    then show "np_index (file_dims c) (x - 1) = Inr (file_dims c ! nat (x - 1))"
      unfolding file_dims_def by (rule np_index_perm)
  qed
  have z: "(0::int) \<noteq> 0 \<longleftrightarrow> False" by simp
  show ?thesis
    unfolding parse_long [OF len] voxel0_cases sh ext z if_False
    by (cases "getMRCType (file_code c)") (simp_all add: bind_e_def)
qed

subsection \<open>The checks of the writer\<close>

lemma write_body_forceWrite:
  "c_contiguous stack \<Longrightarrow>
     write_body stack pixelSize True f = write_body stack pixelSize False f"
  by (simp add: write_body_def np_ascontiguousarray_def tobytes_def)

lemma ascontiguous_id: "c_contiguous stack \<Longrightarrow> np_ascontiguousarray stack = stack"
  by (simp add: np_ascontiguousarray_def)

lemma example_strided_facts:
  "\<not> c_contiguous example_strided" "length (shape example_strided) = 3"
  "c_contiguous example_stack" "shape example_stack = [2, 2, 2]" "dtype example_stack = Float32"
  "buf example_stack = example_items"
  by (simp_all add: example_strided_def example_stack_def)

lemma example_plane_facts:
  "c_contiguous example_plane" "shape example_plane = [2, 4]"
  "\<not> c_contiguous example_strided_plane" "shape example_strided_plane = [2, 4]"
  by (simp_all add: example_plane_def example_strided_plane_def)

lemma mrcWriter_many_dims:
  "3 < length (shape stack) \<Longrightarrow>
     mrcWriter w fname stack pixelSize forceWrite
       = (Inl TooManyDimensions,
          w\<lparr>files := (files w)(fname \<mapsto> []), open_handles := Suc (open_handles w)\<rparr>)"
  by (simp add: mrcWriter_def Let_def)

lemma write_body_few_dims:
  assumes "length (shape stack) < 3"
  shows "write_body stack pixelSize forceWrite \<lparr>content = [], pos = 0\<rparr>
       = (Inl IndexError, \<lparr>content = replicate 1024 0, pos = 0\<rparr>)"
proof -
  have i: "py_index (shape stack) 2 = Inl IndexError"
    using assms by (simp add: py_index_def)
  have z: "fseek 0 (fwrite (int32s (replicate 256 0)) \<lparr>content = [], pos = 0\<rparr>)
      = \<lparr>content = replicate 1024 0, pos = 0\<rparr>"
    by (simp add: fwrite_def fseek_def int32s_replicate_0)
  show ?thesis
    unfolding write_body_def Let_def i attempt_Inl z ..
qed

lemma mrcWriter_few_dims:
  "length (shape stack) < 3 \<Longrightarrow>
     mrcWriter w fname stack pixelSize forceWrite =
       (if c_contiguous stack
        then (Inl IndexError,
              w\<lparr>files := (files w)(fname \<mapsto> replicate 1024 0), open_handles := Suc (open_handles w)\<rparr>)
        else (Inl NotCContiguous,
              w\<lparr>files := (files w)(fname \<mapsto> []), open_handles := Suc (open_handles w)\<rparr>))"
  by (simp add: mrcWriter_def Let_def write_body_few_dims commit_def)

lemma mrcWriter_ok:
  assumes sh: "shape stack = [n0, n1, n2]"
    and cc: "c_contiguous stack"
    and code: "mrc_code (dtype stack) = Some code"
    and px: "3 \<le> length pixelSize"
    and sz: "0 < size_of stack"
  shows "mrcWriter w fname stack pixelSize forceWrite
       = (Inr 1, w\<lparr>files := (files w)(fname \<mapsto> mrc_file stack pixelSize)\<rparr>)"
  using sh cc
  by (simp add: mrcWriter_def Let_def write_body_ok [OF assms] commit_def close_file_def)


subsection \<open>Minimum and maximum\<close>







subsection \<open>The statistics in the file\<close>







subsection \<open>Values that rounding leaves alone\<close>












subsection \<open>Sums without rounding\<close>










subsection \<open>The three floats at byte 76\<close>










subsection \<open>Reading back what was written\<close>

lemma length_header_words [simp]: "length (header_words stack pixelSize) = 56"
  by (simp add: header_words_def Let_def)

lemma length_mrc_file [simp]: "length (mrc_file stack pixelSize) = 1024 + length (buf stack)"
  by (simp add: mrc_file_def)

lemma word_at_mrc_file:
  "i < 56 \<Longrightarrow> word_at (mrc_file stack pixelSize) i = header_words stack pixelSize ! i"
  unfolding mrc_file_def by (rule word_at_int32s) simp

lemma header_words_nth:
  assumes "shape stack = [n0, n1, n2]"
  shows "header_words stack pixelSize ! 0 = np_int32 n2"
    "header_words stack pixelSize ! Suc 0 = np_int32 n1"
    "header_words stack pixelSize ! 2 = np_int32 n0"
    "header_words stack pixelSize ! 3 = the (mrc_code (dtype stack))"
    "header_words stack pixelSize ! 7 = np_int32 n2"
    "header_words stack pixelSize ! 8 = np_int32 n1"
    "header_words stack pixelSize ! 9 = np_int32 n0"
    "header_words stack pixelSize ! 16 = 1"
    "header_words stack pixelSize ! 17 = 2"
    "header_words stack pixelSize ! 18 = 3"
    "header_words stack pixelSize ! 23 = 0"
  using assms by (simp_all add: header_words_def Let_def nth_append)

lemma mrc_file_fields:
  assumes "shape stack = [n0, n1, n2]"
  shows "file_dims (mrc_file stack pixelSize)
           = [sint (np_int32 n2), sint (np_int32 n1), sint (np_int32 n0)]"
    "file_code (mrc_file stack pixelSize) = sint (the (mrc_code (dtype stack)))"
    "file_grid (mrc_file stack pixelSize)
           = [sint (np_int32 n2), sint (np_int32 n1), sint (np_int32 n0)]"
    "file_axes (mrc_file stack pixelSize) = [1, 2, 3]"
    "ext_count (mrc_file stack pixelSize) = 0"
  by (simp_all add: file_dims_def file_code_def file_grid_def file_axes_def ext_count_def
      int32_at_def word_at_mrc_file header_words_nth [OF assms])

lemma getMRCType_mrc_code:
  "mrc_code d = Some code \<Longrightarrow> getMRCType (sint code) = Inr d"
  by (cases d) (auto simp add: getMRCType_def)


lemma parse_mrc_file:
  assumes sh: "shape stack = [n0, n1, n2]" and code: "mrc_code (dtype stack) = Some code"
  shows "\<exists>h.
     parse \<lparr>content = mrc_file stack pixelSize, pos = 0\<rparr>
       = Inr (h, \<lparr>content = mrc_file stack pixelSize, pos = 1024\<rparr>)
     \<and> dataSize h = [sint (np_int32 n0), sint (np_int32 n1), sint (np_int32 n2)]
     \<and> Shape h = [sint (np_int32 n0), sint (np_int32 n1), sint (np_int32 n2)]
     \<and> dataType h = dtype stack \<and> dataOffset h = 1024 \<and> FEIinfo h = None
     \<and> axisOrientations h = [3, 2, 1]
     \<and> cellAngles h = rev (file_angles (mrc_file stack pixelSize))"
proof -
  let ?c = "mrc_file stack pixelSize"
  have len: "96 \<le> length ?c" by simp
  have sh3: "collect (map (\<lambda>x. np_index [sint (np_int32 n2), sint (np_int32 n1), sint (np_int32 n0)] (x - 1)) [1, 2, 3])
      = Inr [sint (np_int32 n2), sint (np_int32 n1), sint (np_int32 n0)]"
    by (simp add: np_index_def bind_e_def)
  have b: "\<And>x k. bind_e (Inr x) k = k x" by (simp add: bind_e_def)
  have g: "getMRCType (sint (the (mrc_code (dtype stack)))) = Inr (dtype stack)"
    using code by (simp add: getMRCType_mrc_code)
  have z: "(0::int) \<noteq> 0 \<longleftrightarrow> False" by simp
  show ?thesis
    unfolding parse_long [OF len] voxel0_cases
    unfolding mrc_file_fields [OF sh] sh3 g b z if_False prod.case
    by (intro exI conjI) (rule refl, simp_all)
qed

lemma drop_mrc_file: "drop 1024 (mrc_file stack pixelSize) = buf stack"
  by (simp add: mrc_file_def)

lemma np_fromfile_data:
  "np_fromfile \<lparr>content = mrc_file stack pixelSize, pos = 1024\<rparr> k count
     = (chunks k (if count < 0 then length (buf stack) div k
                  else min (nat count) (length (buf stack) div k)) (buf stack),
        \<lparr>content = mrc_file stack pixelSize,
           pos = 1024 + (if count < 0 then length (buf stack) div k
                         else min (nat count) (length (buf stack) div k)) * k\<rparr>)"
  by (simp add: np_fromfile_def Let_def drop_mrc_file)

lemma mrcReader_mrc_file:
  assumes f: "files w fname = Some (mrc_file stack pixelSize)"
    and sh: "shape stack = [n0, n1, n2]" and code: "mrc_code (dtype stack) = Some code"
  shows "map_sum id out_data (fst (mrcReader w fname)) =
     (case np_fromfile \<lparr>content = mrc_file stack pixelSize, pos = 1024\<rparr>
             (itemsize (dtype stack))
             (np_prod [sint (np_int32 n0), sint (np_int32 n1), sint (np_int32 n2)]) of
        (data1, f') \<Rightarrow>
          bind_e (np_reshape (length data1)
                    [sint (np_int32 n0), sint (np_int32 n1), sint (np_int32 n2)])
            (\<lambda>shp. Inr \<lparr>dtype = dtype stack, shape = shp, buf = concat data1,
                         c_contiguous = True\<rparr>))"
proof -
  from parse_mrc_file [OF sh code, of pixelSize]
  obtain h where p: "parse \<lparr>content = mrc_file stack pixelSize, pos = 0\<rparr>
       = Inr (h, \<lparr>content = mrc_file stack pixelSize, pos = 1024\<rparr>)"
    and h: "dataSize h = [sint (np_int32 n0), sint (np_int32 n1), sint (np_int32 n2)]"
      "Shape h = [sint (np_int32 n0), sint (np_int32 n1), sint (np_int32 n2)]"
      "dataType h = dtype stack" "dataOffset h = 1024"
    by blast
  show ?thesis
    unfolding mrcReader_fst [OF f] p
    by (simp add: bind_e_def getDataset_def h fseek_def split: prod.splits sum.splits)
qed

lemma sint_np_int32:
  assumes "n < 2 ^ 31"
  shows "sint (np_int32 n) = int n"
proof -
  have "sint (word_of_int (int n) :: 32 word) = signed_take_bit (LENGTH(32) - 1) (int n)"
    by (rule sint_sbintrunc')
  also have "\<dots> = int n"
    using assms by (simp add: signed_take_bit_int_eq_self)
  finally show ?thesis unfolding np_int32_def .
qed

lemma np_prod_small:
  assumes "0 \<le> prod_list ds" and "prod_list ds < 2 ^ 63"
  shows "np_prod ds = prod_list ds"
proof -
  have "sint (word_of_int (prod_list ds) :: 64 word)
      = signed_take_bit (LENGTH(64) - 1) (prod_list ds)"
    by (rule sint_sbintrunc')
  also have "\<dots> = prod_list ds"
    using assms by (simp add: signed_take_bit_int_eq_self)
  finally show ?thesis unfolding np_prod_def .
qed

lemma mrc_code_supported:
  "d \<in> {Int8, Int16, UInt16, Float32} \<Longrightarrow> \<exists>code. mrc_code d = Some code"
  by auto

lemma np_reshape_exact:
  "np_reshape (n0 * n1 * n2) [int n0, int n1, int n2] = Inr [n0, n1, n2]"
  by (simp add: np_reshape_def Let_def nat_mult_distrib)

lemma map_sum_comp_Inr: "map_sum id g x = Inr y \<Longrightarrow> map_sum id (f \<circ> g) x = Inr (f y)"
  by (cases x) auto

lemma example_long_facts:
  "dtype example_long = Int8" "shape example_long = [4294967296, 1, 1]"
  "buf example_long = long_zeros" "c_contiguous example_long"
  by (simp_all add: example_long_def)

lemma length_long_zeros: "length long_zeros = 4294967296"
  unfolding long_zeros_def by (rule length_replicate)

lemma wf_example_long: "wf_ndarray example_long"
  by (simp add: wf_ndarray_def example_long_facts length_long_zeros size_of_def)

lemma np_int32_wraps: "sint (np_int32 4294967296) = 0" "sint (np_int32 1) = 1"
  by (simp_all add: np_int32_def)

lemma mrcReader_after_mrcWriter:
  assumes sh: "shape stack = [n0, n1, n2]"
    and pos: "1 \<le> n0" "1 \<le> n1" "1 \<le> n2"
    and small: "n0 < 2 ^ 31" "n1 < 2 ^ 31" "n2 < 2 ^ 31"
    and dt: "dtype stack \<in> {Int8, Int16, UInt16, Float32}"
    and cc: "c_contiguous stack"
    and wf: "wf_ndarray stack"
    and px: "length pixelSize = 3"
  shows "fst (mrcWriter w fname stack pixelSize forceWrite) = Inr 1
       \<and> map_sum id out_data
           (fst (mrcReader (snd (mrcWriter w fname stack pixelSize forceWrite)) fname))
           = Inr stack
       \<and> map_sum id (shape \<circ> out_data)
           (fst (mrcReader (snd (mrcWriter w fname stack pixelSize forceWrite)) fname))
           = Inr [n0, n1, n2]"
proof -
  obtain code where code: "mrc_code (dtype stack) = Some code"
    using mrc_code_supported [OF dt] by blast
  have size: "size_of stack = n0 * n1 * n2"
    by (simp add: size_of_def sh)
  have sz: "0 < size_of stack"
    using pos by (simp add: size)
  have isz: "0 < itemsize (dtype stack)"
    and len: "length (buf stack) = n0 * n1 * n2 * itemsize (dtype stack)"
    and bound: "length (buf stack) < 2 ^ 63"
    using wf by (simp_all add: wf_ndarray_def size)
  have "n0 * n1 * n2 \<le> length (buf stack)"
    using isz len by simp
  then have b63: "n0 * n1 * n2 < 2 ^ 63"
    using bound by linarith
  have px3: "3 \<le> length pixelSize" using px by simp
  have wr: "mrcWriter w fname stack pixelSize forceWrite
       = (Inr 1, w\<lparr>files := (files w)(fname \<mapsto> mrc_file stack pixelSize)\<rparr>)"
    by (rule mrcWriter_ok [OF sh cc code px3 sz])
  have f: "files (w\<lparr>files := (files w)(fname \<mapsto> mrc_file stack pixelSize)\<rparr>) fname
       = Some (mrc_file stack pixelSize)"
    by simp
  have d: "sint (np_int32 n0) = int n0" "sint (np_int32 n1) = int n1"
    "sint (np_int32 n2) = int n2"
    using small by (simp_all add: sint_np_int32)
  define m where "m = n0 * n1 * n2"
  have "prod_list [int n0, int n1, int n2] = int m"
    by (simp add: m_def)
  moreover have "int m < 2 ^ 63"
    using b63 unfolding m_def by (metis of_nat_less_iff of_nat_numeral of_nat_power)
  ultimately have pr: "np_prod [int n0, int n1, int n2] = int m"
    using np_prod_small [of "[int n0, int n1, int n2]"] by simp
  have dv: "length (buf stack) div itemsize (dtype stack) = m"
    using isz len by (simp add: m_def)
  have cat: "concat (chunks (itemsize (dtype stack)) m (buf stack)) = buf stack"
    using concat_chunks [of m "itemsize (dtype stack)" "buf stack"] len by (simp add: m_def)
  have nf: "np_fromfile \<lparr>content = mrc_file stack pixelSize, pos = 1024\<rparr>
        (itemsize (dtype stack)) (int m)
      = (chunks (itemsize (dtype stack)) m (buf stack),
         \<lparr>content = mrc_file stack pixelSize, pos = 1024 + m * itemsize (dtype stack)\<rparr>)"
    unfolding np_fromfile_data by (simp add: dv)
  have rs: "np_reshape m [int n0, int n1, int n2] = Inr [n0, n1, n2]"
    unfolding m_def by (rule np_reshape_exact)
  have st: "\<lparr>dtype = dtype stack, shape = [n0, n1, n2], buf = buf stack, c_contiguous = True\<rparr>
      = stack"
    using sh cc by simp
  have rd: "map_sum id out_data
      (fst (mrcReader (w\<lparr>files := (files w)(fname \<mapsto> mrc_file stack pixelSize)\<rparr>) fname))
      = Inr stack"
    unfolding mrcReader_mrc_file [OF f sh code] d pr nf prod.case length_chunks rs cat
    by (simp add: bind_e_def st)
  show ?thesis
    unfolding wr using rd map_sum_comp_Inr [OF rd, of shape] sh by simp
qed

lemma wf_example_stack: "wf_ndarray example_stack"
  by (simp add: wf_ndarray_def example_strided_facts size_of_def example_items_def)

lemma read_example_stack:
  "map_sum id out_data
     (fst (mrcReader (snd (mrcWriter no_files ''a.mrc'' example_stack [Fin 1, Fin 1, Fin 1] False))
        ''a.mrc'')) = Inr example_stack"
  using mrcReader_after_mrcWriter [of example_stack 2 2 2 "[Fin 1, Fin 1, Fin 1]" no_files "''a.mrc''" False]
    wf_example_stack
  by (simp add: example_strided_facts)

subsection \<open>The handle of the reader\<close>

lemma fileMRC_del_open: "fid self = Some f \<Longrightarrow> fileMRC_del w self = w"
  by (simp add: fileMRC_del_def)

lemma parseHeader_fid:
  "parseHeader self = Inr (h, self') \<Longrightarrow> \<exists>f. fid self' = Some f"
  by (auto simp add: parseHeader_def bind_e_def split: option.splits sum.splits)

lemma mrcReader_snd:
  assumes "files w fname = Some c"
  shows "snd (mrcReader w fname) = w\<lparr>open_handles := Suc (open_handles w)\<rparr>"
proof (cases "parseHeader \<lparr>filename = fname, fid = Some \<lparr>content = c, pos = 0\<rparr>\<rparr>")
  case (Inl e)
  then show ?thesis
    using assms by (simp add: mrcReader_def fileMRC_init_def fileMRC_del_def)
next
  case (Inr r)
  obtain h self' where r: "r = (h, self')" by (cases r)
  from parseHeader_fid [OF Inr [unfolded r]] obtain f where "fid self' = Some f" ..
  then show ?thesis
    using assms Inr r by (simp add: mrcReader_def fileMRC_init_def fileMRC_del_open)
qed

section \<open>The claims\<close>

text \<open>
  Claim C1, as amended.  Take a C-contiguous array of a supported type (int8, int16,
  uint16, float32) and of shape \<open>n0, n1, n2\<close> with every \<open>n\<^sub>i\<close> at least 1 and below
  \<open>2\<^sup>3\<^sup>1\<close>, and a pixel size of three numbers.  \<^verbatim>\<open>mrcWriter\<close> returns 1, and
  \<^verbatim>\<open>mrcReader\<close> on the file it has written returns an array with the same element
  type, the same shape and the same items.  The bound is needed: the header stores a
  dimension as \<^verbatim>\<open>np.int32\<close>, which keeps the low 32 bits, and the \<^verbatim>\<open>int8\<close> array of shape
  \<open>2\<^sup>3\<^sup>2\<close>, 1, 1 is read back with the shape 0, 1, 1
  (\<open>write_read_roundtrip_counterexample\<close>).
\<close>

theorem write_read_roundtrip:
  assumes sh: "shape stack = [n0, n1, n2]"
    and pos: "1 \<le> n0" "1 \<le> n1" "1 \<le> n2"
    and small: "n0 < 2 ^ 31" "n1 < 2 ^ 31" "n2 < 2 ^ 31"
    and dt: "dtype stack \<in> {Int8, Int16, UInt16, Float32}"
    and cc: "c_contiguous stack"
    and wf: "wf_ndarray stack"
    and px: "length pixelSize = 3"
  shows "fst (mrcWriter w fname stack pixelSize forceWrite) = Inr 1
       \<and> map_sum id out_data
           (fst (mrcReader (snd (mrcWriter w fname stack pixelSize forceWrite)) fname))
           = Inr stack
       \<and> map_sum id (shape \<circ> out_data)
           (fst (mrcReader (snd (mrcWriter w fname stack pixelSize forceWrite)) fname))
           = Inr [n0, n1, n2]"
  using assms by (rule mrcReader_after_mrcWriter)

theorem write_read_roundtrip_counterexample:
  "wf_ndarray example_long \<and> c_contiguous example_long \<and> dtype example_long = Int8
   \<and> shape example_long = [4294967296, 1, 1]
   \<and> fst (mrcWriter no_files ''a.mrc'' example_long [Fin 1, Fin 1, Fin 1] False) = Inr 1
   \<and> map_sum id (shape \<circ> out_data)
        (fst (mrcReader (snd (mrcWriter no_files ''a.mrc'' example_long [Fin 1, Fin 1, Fin 1] False))
           ''a.mrc'')) = Inr [0, 1, 1]
   \<and> map_sum id (shape \<circ> out_data)
        (fst (mrcReader (snd (mrcWriter no_files ''a.mrc'' example_long [Fin 1, Fin 1, Fin 1] False))
           ''a.mrc'')) \<noteq> Inr (shape example_long)"
proof -
  have sh: "shape example_long = [4294967296, 1, 1]" by (rule example_long_facts)
  have code: "mrc_code (dtype example_long) = Some 0" by (simp add: example_long_facts)
  have sz: "0 < size_of example_long" by (simp add: size_of_def example_long_facts)
  have px: "3 \<le> length [Fin 1, Fin 1, Fin 1 :: npfloat]" by simp
  have wr: "mrcWriter no_files ''a.mrc'' example_long [Fin 1, Fin 1, Fin 1] False
       = (Inr 1, no_files\<lparr>files := (files no_files)(''a.mrc'' \<mapsto> mrc_file example_long [Fin 1, Fin 1, Fin 1])\<rparr>)"
    by (rule mrcWriter_ok [OF sh example_long_facts(4) code px sz])
  have f: "files (no_files\<lparr>files := (files no_files)(''a.mrc'' \<mapsto> mrc_file example_long [Fin 1, Fin 1, Fin 1])\<rparr>) ''a.mrc''
       = Some (mrc_file example_long [Fin 1, Fin 1, Fin 1])"
    by simp
  have pr: "np_prod [0, 1, 1] = 0" by (simp add: np_prod_def)
  have rs: "np_reshape 0 [0, 1, 1] = Inr [0, 1, 1]" by (simp add: np_reshape_def)
  have rd: "map_sum id out_data
      (fst (mrcReader (no_files\<lparr>files := (files no_files)(''a.mrc'' \<mapsto> mrc_file example_long [Fin 1, Fin 1, Fin 1])\<rparr>) ''a.mrc''))
      = Inr \<lparr>dtype = Int8, shape = [0, 1, 1], buf = [], c_contiguous = True\<rparr>"
    unfolding mrcReader_mrc_file [OF f sh code] np_int32_wraps pr np_fromfile_data
    by (simp add: rs bind_e_def example_long_facts)
  show ?thesis
    unfolding wr using map_sum_comp_Inr [OF rd, of shape]
    by (simp add: wf_example_long example_long_facts)
qed

theorem write_read_roundtrip_witness:
  "wf_ndarray example_stack
   \<and> fst (mrcWriter no_files ''a.mrc'' example_stack [Fin 1, Fin 1, Fin 1] False) = Inr 1
   \<and> map_sum id out_data
        (fst (mrcReader (snd (mrcWriter no_files ''a.mrc'' example_stack [Fin 1, Fin 1, Fin 1] False))
           ''a.mrc'')) = Inr example_stack
   \<and> map_sum id (shape \<circ> out_data)
        (fst (mrcReader (snd (mrcWriter no_files ''a.mrc'' example_stack [Fin 1, Fin 1, Fin 1] False))
           ''a.mrc'')) = Inr [2, 2, 2]"
proof -
  have wf: "wf_ndarray example_stack" by (rule wf_example_stack)
  show ?thesis
    using write_read_roundtrip [of example_stack 2 2 2 "[Fin 1, Fin 1, Fin 1]" no_files "''a.mrc''" False]
      wf
    by (simp add: example_strided_facts)
qed

text \<open>
  Claim C2.  The claim is that the data offset is 1024 plus four times the extension
  count, the count being a number of 4-byte words, as the comment of line 123 has it
  ("the size of the FEI information ... in terms of 4 byte floats").  Line 173 adds the
  count itself: \<^verbatim>\<open>self.dataOffset = 1024+self.extra[1]\<close>.  For the file
  \<open>example_fei_file\<close>, whose count is 15 and whose extension is the fifteen floats at
  bytes 1024 to 1083, \<^verbatim>\<open>parseHeader\<close> sets the data offset 1039, not 1084.  (For every
  decoded file the offset is \<open>1024 + ext_count c\<close>, lemma \<open>parse_dataOffset\<close>.)
\<close>

theorem dataOffset_not_scaled:
  "parse \<lparr>content = example_fei_file, pos = 0\<rparr>
     = Inr (example_fei_header, \<lparr>content = example_fei_file, pos = 1084\<rparr>)
   \<and> ext_count example_fei_file = 15
   \<and> dataOffset example_fei_header = 1039
   \<and> dataOffset example_fei_header \<noteq> 1024 + ext_count example_fei_file * 4"
  by (simp add: parse_example_fei example_fei_fields example_fei_header_def)

text \<open>
  Claim C3.  The claim is that a header whose type code is not 0, 1, 2 or 6 (the
  complex codes 3 and 4 included) makes the decoder fail with an error for the
  unsupported sample type.  \<^verbatim>\<open>_getMRCType\<close> has a branch for such a code: it prints
  "Unsupported data type", and its comment says that complex types are unsupported.
  But the branch raises nothing and goes on to \<^verbatim>\<open>return Type\<close> with \<^verbatim>\<open>Type\<close> never
  assigned, so that what ends \<^verbatim>\<open>parseHeader\<close> and \<^verbatim>\<open>mrcReader\<close> is Python's
  UnboundLocalError, not an error that names the unsupported type (as
  \<open>UnsupportedDtype\<close> does in the writer).  The rest of the claim holds: no element
  type is chosen in place of an unsupported one, and the table is 0 for int8, 1 for
  int16, 2 for float32, 6 for uint16, in \<^verbatim>\<open>_getMRCType\<close> and in every decoded header.
  A file of 96 bytes or more with an axis order within 1, 2, 3 and no extension is
  decoded if and only if \<^verbatim>\<open>_getMRCType\<close> returns, and with the element type that it
  returns.
\<close>

theorem unsupported_type_rejected:
  assumes "files w fname = Some c" and "16 \<le> length c"
  shows "(file_code c \<notin> {0, 1, 2, 6} \<longrightarrow>
            getMRCType (file_code c) = Inl UnboundLocalError
          \<and> parse \<lparr>content = c, pos = 0\<rparr> = Inl UnboundLocalError
          \<and> fst (mrcReader w fname) = Inl UnboundLocalError
          \<and> fst (mrcReader w fname) \<noteq> Inl UnsupportedDtype)
       \<and> getMRCType 0 = Inr Int8 \<and> getMRCType 1 = Inr Int16
       \<and> getMRCType 2 = Inr Float32 \<and> getMRCType 6 = Inr UInt16
       \<and> (96 \<le> length c \<and> set (file_axes c) \<subseteq> {1, 2, 3} \<and> ext_count c = 0 \<longrightarrow>
            map_sum id (dataType \<circ> fst) (parse \<lparr>content = c, pos = 0\<rparr>)
              = getMRCType (file_code c))
       \<and> (\<forall>h f'. parse \<lparr>content = c, pos = 0\<rparr> = Inr (h, f') \<longrightarrow>
            (file_code c = 0 \<and> dataType h = Int8)
          \<or> (file_code c = 1 \<and> dataType h = Int16)
          \<or> (file_code c = 2 \<and> dataType h = Float32)
          \<or> (file_code c = 6 \<and> dataType h = UInt16))"
proof (intro conjI impI allI)
  assume bad: "file_code c \<notin> {0, 1, 2, 6}"
  then show g: "getMRCType (file_code c) = Inl UnboundLocalError"
    by (simp add: getMRCType_def)
  then show p: "parse \<lparr>content = c, pos = 0\<rparr> = Inl UnboundLocalError"
    using assms(2) by (rule parse_unsupported [rotated])
  show r: "fst (mrcReader w fname) = Inl UnboundLocalError"
    unfolding mrcReader_fst [OF assms(1)] p by (simp add: bind_e_def)
  show "fst (mrcReader w fname) \<noteq> Inl UnsupportedDtype"
    unfolding r by simp
next
  show "getMRCType 0 = Inr Int8" "getMRCType 1 = Inr Int16"
    "getMRCType 2 = Inr Float32" "getMRCType 6 = Inr UInt16"
    by (simp_all add: getMRCType_def)
next
  assume "96 \<le> length c \<and> set (file_axes c) \<subseteq> {1, 2, 3} \<and> ext_count c = 0"
  then show "map_sum id (dataType \<circ> fst) (parse \<lparr>content = c, pos = 0\<rparr>)
      = getMRCType (file_code c)"
    by (simp add: parse_dataType)
next
  fix h f'
  assume "parse \<lparr>content = c, pos = 0\<rparr> = Inr (h, f')"
  then have "getMRCType (file_code c) = Inr (dataType h)"
    using parse_Inr_fields by blast
  then show "(file_code c = 0 \<and> dataType h = Int8)
          \<or> (file_code c = 1 \<and> dataType h = Int16)
          \<or> (file_code c = 2 \<and> dataType h = Float32)
          \<or> (file_code c = 6 \<and> dataType h = UInt16)"
    by (rule getMRCType_cases)
qed

theorem unsupported_type_rejected_witness:
  "length example_complex_file = 1028 \<and> file_code example_complex_file = 3
   \<and> parse \<lparr>content = example_complex_file, pos = 0\<rparr> = Inl UnboundLocalError
   \<and> fst (mrcReader \<lparr>files = [''complex.mrc'' \<mapsto> example_complex_file], open_handles = 0\<rparr>
          ''complex.mrc'') = Inl UnboundLocalError
   \<and> file_code example_file = 2
   \<and> parse \<lparr>content = example_file, pos = 0\<rparr>
       = Inr (example_header, \<lparr>content = example_file, pos = 1024\<rparr>)
   \<and> map_sum id (dataType \<circ> fst) (parse \<lparr>content = example_file, pos = 0\<rparr>) = Inr Float32"
proof -
  have 1: "files \<lparr>files = [''complex.mrc'' \<mapsto> example_complex_file], open_handles = 0\<rparr>
      ''complex.mrc'' = Some example_complex_file" by simp
  have 2: "16 \<le> length example_complex_file" by (simp add: length_example_complex_file)
  have 3: "file_code example_complex_file \<notin> {0, 1, 2, 6}" by (simp add: file_code_complex)
  have 4: "files \<lparr>files = [''a.mrc'' \<mapsto> example_file], open_handles = 0\<rparr> ''a.mrc''
      = Some example_file" by simp
  have 5: "16 \<le> length example_file" by (simp add: length_example_file)
  have 6: "96 \<le> length example_file \<and> set (file_axes example_file) \<subseteq> {1, 2, 3}
      \<and> ext_count example_file = 0"
    by (simp add: length_example_file example_fields)
  from unsupported_type_rejected [OF 1 2] 3
  have a: "fst (mrcReader \<lparr>files = [''complex.mrc'' \<mapsto> example_complex_file], open_handles = 0\<rparr>
          ''complex.mrc'') = Inl UnboundLocalError"
    and a': "parse \<lparr>content = example_complex_file, pos = 0\<rparr> = Inl UnboundLocalError"
    by blast+
  from unsupported_type_rejected [OF 4 5] 6
  have "map_sum id (dataType \<circ> fst) (parse \<lparr>content = example_file, pos = 0\<rparr>)
      = getMRCType (file_code example_file)" by blast
  moreover from unsupported_type_rejected [OF 4 5] have "getMRCType 2 = Inr Float32" by blast
  ultimately have b: "map_sum id (dataType \<circ> fst) (parse \<lparr>content = example_file, pos = 0\<rparr>)
      = Inr Float32"
    by (simp add: example_fields)
  show ?thesis
    using a a' b parse_example
    by (simp add: example_fields file_code_complex length_example_complex_file)
qed

text \<open>
  Claim C4.  When a header is decoded and its axis order is a permutation of 1, 2, 3,
  the decoded shape is the list of the dimensions picked by the axis order (item \<open>i\<close> is
  the dimension number \<open>axisOrder[i]\<close>, counted from 1), reversed.  Dimensions 4, 5, 6 in
  the file with the axis order 1, 2, 3 give the shape 6, 5, 4: this is what
  \<^verbatim>\<open>parseHeader\<close> makes of \<open>example_file\<close> (\<open>shape_from_axis_order_witness\<close>).
\<close>
theorem shape_from_axis_order:
  assumes "parse \<lparr>content = c, pos = 0\<rparr> = Inr (h, f')"
    and "set (file_axes c) = {1, 2, 3}"
  shows "Shape h = rev (map (\<lambda>a. file_dims c ! nat (a - 1)) (file_axes c))
       \<and> (file_dims c = [4, 5, 6] \<and> file_axes c = [1, 2, 3] \<longrightarrow> Shape h = [6, 5, 4])"
proof -
  have "collect (map (\<lambda>x. np_index (file_dims c) (x - 1)) (file_axes c)) = Inr (rev (Shape h))"
    using parse_Inr_fields [OF assms(1)] by blast
  moreover have "collect (map (\<lambda>x. np_index (file_dims c) (x - 1)) (file_axes c))
      = Inr (map (\<lambda>a. file_dims c ! nat (a - 1)) (file_axes c))"
    by (rule collect_map_Inr) (use assms(2) in \<open>simp add: file_dims_def np_index_perm\<close>)
  ultimately have "rev (Shape h) = map (\<lambda>a. file_dims c ! nat (a - 1)) (file_axes c)"
    by simp
  then have s: "Shape h = rev (map (\<lambda>a. file_dims c ! nat (a - 1)) (file_axes c))"
    by (simp add: rev_swap)
  show ?thesis
    unfolding s by simp
qed

theorem shape_from_axis_order_witness:
  "parse \<lparr>content = example_file, pos = 0\<rparr>
     = Inr (example_header, \<lparr>content = example_file, pos = 1024\<rparr>)
   \<and> file_dims example_file = [4, 5, 6] \<and> file_axes example_file = [1, 2, 3]
   \<and> map_sum id (Shape \<circ> fst) (parse \<lparr>content = example_file, pos = 0\<rparr>) = Inr [6, 5, 4]"
proof -
  have p: "set (file_axes example_file) = {1, 2, 3}"
    by (simp add: example_fields)
  have "Shape example_header = [6, 5, 4]"
    using shape_from_axis_order [OF parse_example p] by (simp add: example_fields)
  then show ?thesis
    by (simp add: parse_example example_fields)
qed

text \<open>
  Claim C5, as amended.  When a header is decoded and its extension count is zero: if
  the three cell words are all zero or the three grid words are all zero, the voxel
  size is 1, 1, 1; otherwise it is, item by item, the cell length over the grid size
  (the \<^verbatim>\<open>float32\<close> quotient, in the decoded order, which is the file order reversed).
  The claim as stated lets the default hold whatever else the header holds; with an
  extension count other than zero, lines 169 to 171 replace the voxel size, and
  \<open>voxel_size_default_counterexample\<close> is a file with a zero cell whose decoded voxel
  size is not 1, 1, 1.
\<close>

theorem voxel_size_without_extension:
  assumes "parse \<lparr>content = c, pos = 0\<rparr> = Inr (h, f')" and "ext_count c = 0"
  shows "voxelSize h =
           (if none_nonzero_f (file_cell c) \<or> none_nonzero_i (file_grid c)
            then [Fin 1, Fin 1, Fin 1]
            else rev (map2 div32 (file_cell c) (file_grid c)))
       \<and> (if none_nonzero_f (file_cell c) \<or> none_nonzero_i (file_grid c)
            then voxelSize h = [Fin 1, Fin 1, Fin 1]
            else voxelSize h = map2 div32 (volumeSize h) (gridSize h))"
proof -
  from parse_Inr_fields [OF assms(1)] assms(2)
  obtain vs where vs: "(if \<not> (none_nonzero_f (file_cell c) \<or> none_nonzero_i (file_grid c))
        then np_divide (file_cell c) (file_grid c) else Inr [Fin 1, Fin 1, Fin 1]) = Inr vs"
    and v: "voxelSize h = rev vs"
    and g: "gridSize h = rev (file_grid c)" and vol: "volumeSize h = rev (file_cell c)"
    by auto
  have vs': "vs = (if none_nonzero_f (file_cell c) \<or> none_nonzero_i (file_grid c)
          then [Fin 1, Fin 1, Fin 1] else map2 div32 (file_cell c) (file_grid c))"
    using vs unfolding voxel0_cases by simp
  show ?thesis
    unfolding v vs' g vol
    by (simp add: file_cell_def file_grid_def)
qed

theorem voxel_size_without_extension_witness:
  "ext_count example_zero_file = 0 \<and> none_nonzero_f (file_cell example_zero_file)
   \<and> voxelSize example_zero_header = [Fin 1, Fin 1, Fin 1]
   \<and> ext_count example_file = 0 \<and> file_cell example_file = [Fin 8, Fin 10, Fin 12]
   \<and> file_grid example_file = [4, 5, 6]
   \<and> voxelSize example_header = [div32 (Fin 12) 6, div32 (Fin 10) 5, div32 (Fin 8) 4]"
  using voxel_size_without_extension [OF parse_example_zero]
    voxel_size_without_extension [OF parse_example]
  by (simp add: example_fields example_zero_fields none_nonzero_f_def none_nonzero_i_def)

theorem voxel_size_default_counterexample:
  "none_nonzero_f (file_cell example_fei_file)
   \<and> parse \<lparr>content = example_fei_file, pos = 0\<rparr>
       = Inr (example_fei_header, \<lparr>content = example_fei_file, pos = 1084\<rparr>)
   \<and> voxelSize example_fei_header \<noteq> [Fin 1, Fin 1, Fin 1]"
  by (simp add: parse_example_fei example_fei_fields example_fei_header_def none_nonzero_f_def)

text \<open>
  Claim C6.  When a header is decoded and its extension count is not zero, the file
  holds the fifteen floats at bytes 1024 to 1083, they are the decoded vendor block,
  and the decoded voxel size is 1.0 followed twice by the pixel size times \<open>10\<^sup>1\<^sup>0\<close>,
  whatever the cell and the grid are.  The product is stored in the voxel-size array:
  rounded to \<^verbatim>\<open>float32\<close> when the array came from the quotient, unrounded when it is
  the array of ones.  \<^verbatim>\<open>parseHeader\<close> decodes \<open>example_fei_file\<close>, whose cell is zero
  and whose pixel size is \<open>2\<^sup>-\<^sup>3\<^sup>3\<close>, with the voxel size 1.0, 1.164..., 1.164...
  (\<open>vendor_override_witness\<close>).
\<close>
theorem vendor_override:
  assumes "parse \<lparr>content = c, pos = 0\<rparr> = Inr (h, f')" and "ext_count c \<noteq> 0"
  shows "1084 \<le> length c
       \<and> FEIinfo h = Some (map (float32_at c) [256..<271])
       \<and> voxelSize h =
           [Fin 1,
            store (\<not> (none_nonzero_f (file_cell c) \<or> none_nonzero_i (file_grid c)))
              (fmul (file_pixel_size c) (Fin 10000000000)),
            store (\<not> (none_nonzero_f (file_cell c) \<or> none_nonzero_i (file_grid c)))
              (fmul (file_pixel_size c) (Fin 10000000000))]"
proof -
  let ?single = "\<not> (none_nonzero_f (file_cell c) \<or> none_nonzero_i (file_grid c))"
  from parse_Inr_fields [OF assms(1)] assms(2)
  obtain vs info where vs: "(if ?single
        then np_divide (file_cell c) (file_grid c) else Inr [Fin 1, Fin 1, Fin 1]) = Inr vs"
    and r: "read_FEI \<lparr>content = c, pos = 1024\<rparr> ?single (rev vs) = Inr (info, voxelSize h, f')"
    and i: "FEIinfo h = Some info"
    by auto
  have "length vs = 3"
    using vs unfolding voxel0_cases by (auto simp add: file_cell_def file_grid_def)
  then have len: "length (rev vs) = 3" by simp
  show ?thesis
    using r i unfolding read_FEI_eq [OF len]
    by (simp split: if_splits)
qed

theorem vendor_override_witness:
  "parse \<lparr>content = example_fei_file, pos = 0\<rparr>
     = Inr (example_fei_header, \<lparr>content = example_fei_file, pos = 1084\<rparr>)
   \<and> ext_count example_fei_file = 15 \<and> file_cell example_fei_file = [Fin 0, Fin 0, Fin 0]
   \<and> file_pixel_size example_fei_file = Fin (1 / 2 ^ 33)
   \<and> map_sum id (voxelSize \<circ> fst) (parse \<lparr>content = example_fei_file, pos = 0\<rparr>)
       = Inr [Fin 1, Fin (9765625 / 8388608), Fin (9765625 / 8388608)]
   \<and> map_sum id (FEIinfo \<circ> fst) (parse \<lparr>content = example_fei_file, pos = 0\<rparr>)
       = Inr (Some [Fin 0, Fin 0, Fin 0, Fin 0, Fin 0, Fin 0, Fin 0, Fin 0, Fin 0, Fin 0,
                    Fin 0, Fin (1 / 2 ^ 33), Fin 0, Fin 0, Fin 0])"
proof -
  have e: "ext_count example_fei_file \<noteq> 0" by (simp add: example_fei_fields)
  have v: "voxelSize example_fei_header
      = [Fin 1, Fin (9765625 / 8388608), Fin (9765625 / 8388608)]"
    using vendor_override [OF parse_example_fei e]
    by (simp add: example_fei_fields none_nonzero_f_def store_def)
  have i: "FEIinfo example_fei_header
      = Some [Fin 0, Fin 0, Fin 0, Fin 0, Fin 0, Fin 0, Fin 0, Fin 0, Fin 0, Fin 0,
              Fin 0, Fin (1 / 2 ^ 33), Fin 0, Fin 0, Fin 0]"
    by (simp add: example_fei_header_def)
  show ?thesis
    using v i by (simp add: parse_example_fei example_fei_fields)
qed



text \<open>
  Claim C8, as amended.  An array with more than three dimensions is refused by the
  dimension check of line 334 ("Too many dimensions", \<^verbatim>\<open>return 0\<close>) before anything is
  written.  An array with fewer than three dimensions passes that check; the writer
  still fails on it and writes no sample data, but not with the dimension error: it
  is refused as not C-contiguous, or else \<^verbatim>\<open>stack.shape[2]\<close> (line 353) raises
  IndexError after the 1024 zero bytes have been written.  The claim as stated, the
  dimension error for every number of dimensions other than three, fails for the
  two-dimensional arrays of \<open>dimension_check_counterexample\<close>.
\<close>

theorem dimension_check:
  assumes "length (shape stack) \<noteq> 3"
  shows "fst (mrcWriter w fname stack pixelSize forceWrite)
           = (if 3 < length (shape stack) then Inl TooManyDimensions
              else if c_contiguous stack then Inl IndexError else Inl NotCContiguous)
       \<and> files (snd (mrcWriter w fname stack pixelSize forceWrite)) fname
           = (if 3 < length (shape stack) \<or> \<not> c_contiguous stack then Some []
              else Some (replicate 1024 0))"
proof (cases "3 < length (shape stack)")
  case True
  then show ?thesis by (simp add: mrcWriter_many_dims)
next
  case False
  then have "length (shape stack) < 3" using assms by simp
  then show ?thesis by (simp add: mrcWriter_few_dims)
qed

theorem dimension_check_witness:
  "length (shape example_hyper) \<noteq> 3
   \<and> fst (mrcWriter no_files ''a.mrc'' example_hyper [Fin 1, Fin 1, Fin 1] False)
       = Inl TooManyDimensions
   \<and> files (snd (mrcWriter no_files ''a.mrc'' example_hyper [Fin 1, Fin 1, Fin 1] False)) ''a.mrc''
       = Some []
   \<and> length (shape example_plane) \<noteq> 3
   \<and> files (snd (mrcWriter no_files ''a.mrc'' example_plane [Fin 1, Fin 1, Fin 1] False)) ''a.mrc''
       = Some (replicate 1024 0)"
proof -
  have h: "length (shape example_hyper) \<noteq> 3" by (simp add: example_hyper_def)
  have p: "length (shape example_plane) \<noteq> 3" by (simp add: example_plane_facts)
  show ?thesis
    using dimension_check [OF h, of no_files "''a.mrc''" "[Fin 1, Fin 1, Fin 1]" False]
      dimension_check [OF p, of no_files "''a.mrc''" "[Fin 1, Fin 1, Fin 1]" False]
    by (simp add: example_hyper_def example_plane_facts)
qed

theorem dimension_check_counterexample:
  "length (shape example_plane) \<noteq> 3
   \<and> fst (mrcWriter no_files ''a.mrc'' example_plane [Fin 1, Fin 1, Fin 1] False) = Inl IndexError
   \<and> fst (mrcWriter no_files ''a.mrc'' example_plane [Fin 1, Fin 1, Fin 1] False)
       \<noteq> Inl TooManyDimensions
   \<and> length (shape example_strided_plane) \<noteq> 3
   \<and> fst (mrcWriter no_files ''a.mrc'' example_strided_plane [Fin 1, Fin 1, Fin 1] False)
       = Inl NotCContiguous
   \<and> fst (mrcWriter no_files ''a.mrc'' example_strided_plane [Fin 1, Fin 1, Fin 1] False)
       \<noteq> Inl TooManyDimensions"
  by (simp add: mrcWriter_few_dims example_plane_facts)

text \<open>
  Claim C9.  The claim is that the handle which a read session opens is closed on every
  way out.  \<^verbatim>\<open>__del__\<close> ("close the file") calls \<^verbatim>\<open>close\<close> under \<^verbatim>\<open>if(not self.fid)\<close>,
  that is only when there is no handle, and no other statement of the reader closes
  it.  Here \<^verbatim>\<open>mrcWriter\<close> writes the array \<open>example_stack\<close> and leaves no handle open;
  \<^verbatim>\<open>mrcReader\<close> then returns the array, on its normal path, and the handle it opened is
  still open.  (For every file that exists, \<^verbatim>\<open>mrcReader\<close> leaves one more handle open,
  whether it returns or raises: lemma \<open>mrcReader_snd\<close>.)
\<close>

theorem reader_never_closes:
  "fst (mrcWriter no_files ''a.mrc'' example_stack [Fin 1, Fin 1, Fin 1] False) = Inr 1
   \<and> open_handles (snd (mrcWriter no_files ''a.mrc'' example_stack [Fin 1, Fin 1, Fin 1] False)) = 0
   \<and> map_sum id out_data
        (fst (mrcReader (snd (mrcWriter no_files ''a.mrc'' example_stack [Fin 1, Fin 1, Fin 1] False))
           ''a.mrc'')) = Inr example_stack
   \<and> open_handles
        (snd (mrcReader (snd (mrcWriter no_files ''a.mrc'' example_stack [Fin 1, Fin 1, Fin 1] False))
           ''a.mrc'')) = 1
   \<and> fileMRC_del \<lparr>files = Map.empty, open_handles = 1\<rparr>
         \<lparr>filename = ''a.mrc'', fid = Some \<lparr>content = [], pos = 0\<rparr>\<rparr>
       = \<lparr>files = Map.empty, open_handles = 1\<rparr>"
proof -
  have 1: "shape example_stack = [2, 2, 2]" and 2: "c_contiguous example_stack"
    and 3: "mrc_code (dtype example_stack) = Some 2"
    and 4: "3 \<le> length [Fin 1, Fin 1, Fin 1 :: npfloat]"
    and 5: "0 < size_of example_stack"
    by (simp_all add: example_strided_facts size_of_def)
  have wr: "mrcWriter no_files ''a.mrc'' example_stack [Fin 1, Fin 1, Fin 1] False
       = (Inr 1, no_files\<lparr>files := (files no_files)(''a.mrc'' \<mapsto> mrc_file example_stack [Fin 1, Fin 1, Fin 1])\<rparr>)"
    by (rule mrcWriter_ok [OF 1 2 3 4 5])
  have f: "files (no_files\<lparr>files := (files no_files)(''a.mrc'' \<mapsto> mrc_file example_stack [Fin 1, Fin 1, Fin 1])\<rparr>) ''a.mrc''
       = Some (mrc_file example_stack [Fin 1, Fin 1, Fin 1])"
    by simp
  have rd: "map_sum id out_data
        (fst (mrcReader (snd (mrcWriter no_files ''a.mrc'' example_stack [Fin 1, Fin 1, Fin 1] False))
           ''a.mrc'')) = Inr example_stack"
    by (rule read_example_stack)
  show ?thesis
    unfolding wr using rd [unfolded wr] mrcReader_snd [OF f]
    by (simp add: no_files_def fileMRC_del_def)
qed

text \<open>
  Claim C10.  \<^verbatim>\<open>forceWrite\<close> never changes what \<^verbatim>\<open>mrcWriter\<close> does: result, file and
  handle are the same for \<^verbatim>\<open>forceWrite=True\<close> and \<^verbatim>\<open>forceWrite=False\<close>, for every
  input.  The test of \<^verbatim>\<open>C_CONTIGUOUS\<close> (line 338) comes before the branch on
  \<^verbatim>\<open>forceWrite\<close> (line 405): an array that is not C-contiguous is refused with
  \<^verbatim>\<open>forceWrite=True\<close> too (unless the dimension check has refused it already), and for
  a C-contiguous array \<^verbatim>\<open>np.ascontiguousarray\<close> is the identity.
\<close>

theorem forceWrite_changes_nothing:
  "mrcWriter w fname stack pixelSize True = mrcWriter w fname stack pixelSize False
   \<and> (if c_contiguous stack then np_ascontiguousarray stack = stack
       else fst (mrcWriter w fname stack pixelSize True)
              = (if 3 < length (shape stack) then Inl TooManyDimensions else Inl NotCContiguous))"
proof (cases "c_contiguous stack")
  case True
  then show ?thesis
    by (simp add: mrcWriter_def Let_def write_body_forceWrite ascontiguous_id cong: if_cong)
next
  case False
  then show ?thesis
    by (simp add: mrcWriter_def Let_def)
qed

theorem forceWrite_changes_nothing_witness:
  "mrcWriter no_files ''a.mrc'' example_stack [Fin 1, Fin 1, Fin 1] True
     = mrcWriter no_files ''a.mrc'' example_stack [Fin 1, Fin 1, Fin 1] False
   \<and> fst (mrcWriter no_files ''a.mrc'' example_strided [Fin 1, Fin 1, Fin 1] True)
     = Inl NotCContiguous"
proof -
  have a: "mrcWriter no_files ''a.mrc'' example_stack [Fin 1, Fin 1, Fin 1] True
     = mrcWriter no_files ''a.mrc'' example_stack [Fin 1, Fin 1, Fin 1] False"
    using forceWrite_changes_nothing [of no_files "''a.mrc''" example_stack "[Fin 1, Fin 1, Fin 1]"]
    by (rule conjunct1)
  have b: "fst (mrcWriter no_files ''a.mrc'' example_strided [Fin 1, Fin 1, Fin 1] True)
     = Inl NotCContiguous"
    using forceWrite_changes_nothing [of no_files "''a.mrc''" example_strided "[Fin 1, Fin 1, Fin 1]",
        THEN conjunct2]
    by (simp add: example_strided_facts)
  show ?thesis using a b by (rule conjI)
qed

end
